theory Spec2Isabelle
  imports Complex_Main "HOL-Library.Multiset"
begin

section \<open>JavaScript values, arrays and errors\<close>

text \<open>
  The chart code computes with JavaScript numbers. Their arithmetic (IEEE 754 double
  division and multiplication, with \<open>undefined\<close> coerced to \<open>NaN\<close>) is not part of the
  repository, so the operations are a parameter of the model: \<open>'v\<close> is the type of the
  values an array of numbers can yield (numbers and \<open>undefined\<close>), and a \<open>js_ops\<close> record
  supplies \<open>undefined\<close>, the operators \<open>/\<close> and \<open>*\<close> on such values, and the literal
  \<open>100\<close>. Every theorem about the chart code holds for all such operations.
\<close>

record 'v js_ops =
  js_undefined :: 'v
  js_div :: "'v \<Rightarrow> 'v \<Rightarrow> 'v"
  js_mul :: "'v \<Rightarrow> 'v \<Rightarrow> 'v"
  js_hundred :: 'v

text \<open>The only exception the modelled code can raise: a property read on \<open>undefined\<close>.\<close>

datatype js_error = TypeError

text \<open>
  \<open>xs[i]\<close>: reading an array outside \<open>0 .. length - 1\<close> yields \<open>undefined\<close> (here
  \<open>None\<close>); it does not raise.
\<close>

definition js_get :: "'a list \<Rightarrow> int \<Rightarrow> 'a option" where
  "js_get xs i = (if 0 \<le> i \<and> i < int (length xs) then Some (xs ! nat i) else None)"

text \<open>The same read on an array of numbers, with \<open>undefined\<close> as a value.\<close>

definition js_at :: "'v js_ops \<Rightarrow> 'v list \<Rightarrow> int \<Rightarrow> 'v" where
  "js_at ops xs i = (case js_get xs i of None \<Rightarrow> js_undefined ops | Some v \<Rightarrow> v)"

text \<open>
  \<open>Array.prototype.findIndex\<close>: the index of the first element satisfying the predicate,
  \<open>-1\<close> when there is none.
\<close>

fun findIndex :: "('a \<Rightarrow> bool) \<Rightarrow> 'a list \<Rightarrow> int" where
  "findIndex P [] = - 1"
| "findIndex P (x # xs) =
     (if P x then 0 else (let r = findIndex P xs in if r < 0 then - 1 else r + 1))"

text \<open>\<open>Array.prototype.find\<close>: the first element satisfying the predicate, if any.\<close>

fun js_find :: "('a \<Rightarrow> bool) \<Rightarrow> 'a list \<Rightarrow> 'a option" where
  "js_find P [] = None"
| "js_find P (x # xs) = (if P x then Some x else js_find P xs)"

text \<open>
  \<open>Array.prototype.map\<close> with a callback that can throw: the elements are visited in
  order, and the first exception leaves the map.
\<close>

fun js_map :: "('a \<Rightarrow> js_error + 'b) \<Rightarrow> 'a list \<Rightarrow> js_error + 'b list" where
  "js_map f [] = Inr []"
| "js_map f (x # xs) =
     (case f x of
        Inl err \<Rightarrow> Inl err
      | Inr y \<Rightarrow> (case js_map f xs of Inl err \<Rightarrow> Inl err | Inr ys \<Rightarrow> Inr (y # ys)))"

text \<open>\<open>Array.prototype.join\<close> on an array of strings.\<close>

fun js_join :: "string \<Rightarrow> string list \<Rightarrow> string" where
  "js_join sep [] = []"
| "js_join sep [s] = s"
| "js_join sep (s # t # ss) = s @ sep @ js_join sep (t # ss)"

text \<open>
  Truthiness of an optional boolean property: \<open>undefined\<close> (\<open>None\<close>) and \<open>false\<close> are
  falsy.
\<close>

definition js_truthy :: "bool option \<Rightarrow> bool" where
  "js_truthy b = (b = Some True)"

text \<open>\<open>Number.prototype.toString\<close> on an array length: its decimal digits.\<close>

definition digit :: "nat \<Rightarrow> char" where
  "digit d = ''0123456789'' ! d"

function toString :: "nat \<Rightarrow> string" where
  "toString n = (if n < 10 then [digit n] else toString (n div 10) @ [digit (n mod 10)])"
  by pat_completeness auto
termination
  by (relation "measure (\<lambda>n. n)") auto

declare toString.simps [simp del]

text \<open>The number a string of decimal digits denotes, to state what \<open>toString\<close> produces.\<close>

definition decimal_value :: "string \<Rightarrow> nat" where
  "decimal_value s = foldl (\<lambda>acc c. 10 * acc + (of_char c - 48)) 0 s"

text \<open>
  An exact-arithmetic instance of the number operations, used to run the model on
  concrete inputs: \<open>None\<close> stands for \<open>undefined\<close> and \<open>NaN\<close>, \<open>Some q\<close> for the number
  \<open>q\<close>.
\<close>

definition exact_ops :: "rat option js_ops" where
  "exact_ops =
     \<lparr> js_undefined = None,
       js_div = (\<lambda>a b. case (a, b) of
                   (Some x, Some y) \<Rightarrow> (if y = 0 then None else Some (x / y))
                 | _ \<Rightarrow> None),
       js_mul = (\<lambda>a b. case (a, b) of (Some x, Some y) \<Rightarrow> Some (x * y) | _ \<Rightarrow> None),
       js_hundred = Some 100 \<rparr>"

section \<open>Pie-chart tooltips (pieTooltipHelper.ts)\<close>

text \<open>
  A chart dataset as the helper reads it. The source casts \<open>label\<close> to \<open>string\<close> and
  the data entries to \<open>number\<close>; \<open>hidden\<close> is only tested for truthiness.
  \<open>backgroundColor\<close> is optional in the charting library: the source casts it to
  \<open>string[]\<close>, which changes nothing at run time, so it is \<open>None\<close> (\<open>undefined\<close>) or an
  array of strings, and indexing \<open>undefined\<close> raises a \<open>TypeError\<close>.
\<close>

record 'v ChartDataset =
  label :: string
  hidden :: bool
  data :: "'v list"
  backgroundColor :: "string list option"

record TooltipItem =
  dataIndex :: int
  datasetIndex :: int

text \<open>\<open>chart.$totalizer\<close>: one total per dataset index.\<close>

record 'v Totalizer =
  seriesTotals :: "'v list"

record 'v Chart =
  totalizer :: "'v Totalizer"

text \<open>
  The tooltip item and the single entry of its \<open>values\<close> array (\<open>values'\<close> and
  \<open>valueFormattedLabel\<close> here: the entry's own \<open>formattedLabel\<close> field).
\<close>

record ITooltipValue =
  formattedValue :: string
  valueFormattedLabel :: string
  formattedPercentage :: "string option"

record ITooltipItem =
  usePercentage :: bool
  color :: "string option"
  seriesType :: string
  formattedLabel :: string
  values' :: "ITooltipValue list"

text \<open>
  \<open>getPiePercentage\<close>. The formatter \<open>percentageFormatter\<close> lives in \<open>./helper\<close>, outside
  the modelled sources, and is a parameter.
\<close>

definition getPiePercentage ::
  "'v js_ops \<Rightarrow> ('v \<Rightarrow> string \<Rightarrow> 'f \<Rightarrow> string) \<Rightarrow>
   int \<Rightarrow> int \<Rightarrow> 'v list \<Rightarrow> string \<Rightarrow> 'f \<Rightarrow> 'v Chart \<Rightarrow> string" where
  "getPiePercentage ops percentageFormatter dataPointDataIndex datasetIndex' datasetData
     label' columnLabelFormats chart =
     (let compareValue = js_at ops datasetData dataPointDataIndex;
          totalizer' = totalizer chart;
          total = js_at ops (seriesTotals totalizer') datasetIndex';
          percentage = js_mul ops (js_div ops compareValue total) (js_hundred ops)
      in percentageFormatter percentage label' columnLabelFormats)"

text \<open>
  \<open>pieTooltipHelper\<close>. \<open>formatChartLabelDelimiter\<close> and \<open>formatChartValueDelimiter\<close>
  come from \<open>commonHelpers\<close> and are parameters. \<open>dataPoints[0]!.dataIndex\<close> raises a
  \<open>TypeError\<close> on an empty list. \<open>datasets[dataPointDatasetIndex]\<close> may be \<open>undefined\<close>;
  its \<open>label\<close> is first read inside the callback of \<open>some\<close>, which runs only when there
  is a hidden dataset. The callback of \<open>map\<close> reads
  \<open>dataPointDataset.backgroundColor[dataPointDataIndex]\<close> first, and only for a hidden
  dataset with the active label; it raises a \<open>TypeError\<close> when the active dataset has no
  \<open>backgroundColor\<close>, and the exception leaves the helper.
\<close>

definition pieTooltipHelper ::
  "'v js_ops \<Rightarrow> (string \<Rightarrow> 'f \<Rightarrow> string) \<Rightarrow> ('v \<Rightarrow> string \<Rightarrow> 'f \<Rightarrow> string) \<Rightarrow>
   ('v \<Rightarrow> string \<Rightarrow> 'f \<Rightarrow> string) \<Rightarrow>
   'v ChartDataset list \<Rightarrow> TooltipItem list \<Rightarrow> 'v Chart \<Rightarrow> 'f \<Rightarrow> string list \<Rightarrow>
   js_error + ITooltipItem list" where
  "pieTooltipHelper ops formatChartLabelDelimiter formatChartValueDelimiter percentageFormatter
     datasets dataPoints chart columnLabelFormats keyToUsePercentage =
     (case dataPoints of
        [] \<Rightarrow> Inl TypeError
      | dataPoint # _ \<Rightarrow>
          (let dataPointDataIndex = dataIndex dataPoint;
               dataPointDatasetIndex = datasetIndex dataPoint;
               tooltipDatasets = filter hidden datasets
           in case js_get datasets dataPointDatasetIndex of
                None \<Rightarrow> (if tooltipDatasets = [] then Inr [] else Inl TypeError)
              | Some dataPointDataset \<Rightarrow>
                  (let dataPointIsInTooltip =
                         list_ex (\<lambda>dataset. label dataset = label dataPointDataset)
                           tooltipDatasets
                   in if \<not> dataPointIsInTooltip then Inr []
                      else js_map (\<lambda>tooltipDataset.
                        (let isActiveDataset = (label tooltipDataset = label dataPointDataset)
                         in case (if isActiveDataset
                                  then (case backgroundColor dataPointDataset of
                                          None \<Rightarrow> Inl TypeError
                                        | Some colors \<Rightarrow>
                                            Inr (js_get colors dataPointDataIndex))
                                  else Inr None) of
                              Inl err \<Rightarrow> Inl err
                            | Inr color' \<Rightarrow>
                        (let formattedLabel' =
                               formatChartLabelDelimiter (label tooltipDataset)
                                 columnLabelFormats;
                             rawValue = js_at ops (data tooltipDataset) dataPointDataIndex;
                             formattedValue' =
                               formatChartValueDelimiter rawValue (label tooltipDataset)
                                 columnLabelFormats;
                             usePercentage' = (label tooltipDataset \<in> set keyToUsePercentage);
                             formattedPercentage' =
                               (if usePercentage'
                                then Some (getPiePercentage ops percentageFormatter
                                       dataPointDataIndex
                                       (findIndex (\<lambda>dataset. label dataset = label tooltipDataset
                                                     \<and> hidden dataset) datasets)
                                       (data tooltipDataset) (label tooltipDataset)
                                       columnLabelFormats chart)
                                else None)
                         in Inr \<lparr> usePercentage = usePercentage',
                                  color = color',
                                  seriesType = ''pie'',
                                  formattedLabel = formattedLabel',
                                  values' = [\<lparr> formattedValue = formattedValue',
                                              valueFormattedLabel = formattedLabel',
                                              formattedPercentage = formattedPercentage' \<rparr>] \<rparr>)))
                        tooltipDatasets)))"

section \<open>X-axis title (useXAxisTitle)\<close>

text \<open>
  The hook memoises with \<open>useMemo\<close>, which compares dependencies with \<open>Object.is\<close>:
  primitives by value, arrays and objects by identity. An array or object is therefore
  modelled by its identity and its contents.
\<close>

record 'a js_ref =
  ref_id :: nat
  ref_value :: 'a

text \<open>
  The title prop: \<open>undefined\<close>, \<open>null\<close> or a string. The two empty values are falsy
  alike but differ as dependencies.
\<close>

datatype axis_title = TitleUndefined | TitleNull | TitleString string

text \<open>
  The props of the hook. \<open>selectedAxis.x\<close> is the field \<open>axis_x\<close>;
  \<open>columnLabelFormats\<close> is an object indexed by column name; \<open>xAxisShowAxisTitle\<close> may
  be \<open>undefined\<close>.
\<close>

record ChartEncodes =
  axis_x :: "string list"

record 'c UseXAxisTitleProps =
  xAxis :: "string list js_ref"
  columnLabelFormats :: "(string \<rightharpoonup> 'c) js_ref"
  isSupportedChartForAxisTitles :: bool
  xAxisAxisTitle :: axis_title
  xAxisShowAxisTitle :: "bool option"
  selectedAxis :: ChartEncodes

text \<open>
  One memo cell of a component instance: \<open>None\<close> before the first render, afterwards the
  dependencies and the value of the last run of the callback. \<open>useMemo\<close> runs the callback
  on the first render and whenever a dependency differs from the stored one, and
  otherwise returns the stored value. \<open>computed\<close> is the value the callback returns when
  it runs. The dependencies are tuples of primitives and identities, so that equality of
  the tuples is \<open>Object.is\<close> on each component.
\<close>

definition memo_runs :: "('d \<times> 'a) option \<Rightarrow> 'd \<Rightarrow> bool" where
  "memo_runs cell deps = (case cell of None \<Rightarrow> True | Some (deps0, cached) \<Rightarrow> deps0 \<noteq> deps)"

definition useMemo :: "('d \<times> 'a) option \<Rightarrow> 'a \<Rightarrow> 'd \<Rightarrow> 'a \<times> ('d \<times> 'a) option" where
  "useMemo cell computed deps =
     (case cell of
        None \<Rightarrow> (computed, Some (deps, computed))
      | Some (deps0, cached) \<Rightarrow>
          (if deps0 = deps then (cached, cell) else (computed, Some (deps, computed))))"

text \<open>
  The state of the hook between renders: the cell of \<open>xAxisColumnLabelFormats\<close>, the cell
  of \<open>xAxisTitle\<close>, and the number of arrays the first callback has created, which is the
  identity of the next one.
\<close>

record 'c hook_state =
  formats_cell :: "((nat \<times> bool \<times> nat) \<times> 'c option list js_ref) option"
  title_cell :: "((axis_title \<times> bool \<times> bool option \<times> nat \<times> nat) \<times> string) option"
  allocated :: nat

definition mount :: "'c hook_state" where
  "mount = \<lparr> formats_cell = None, title_cell = None, allocated = 0 \<rparr>"

text \<open>
  The callback of the second memo. \<open>formatLabel\<close> (from \<open>utils/columnFormatter\<close>) and
  \<open>AXIS_TITLE_SEPARATOR\<close> (from \<open>./axisHelper\<close>) are parameters. \<open>a || b\<close> on a title is
  \<open>a\<close> when \<open>a\<close> is a non-empty string and \<open>b\<close> otherwise.
\<close>

definition xAxisTitle_callback ::
  "(string \<Rightarrow> 'c option \<Rightarrow> bool \<Rightarrow> string) \<Rightarrow> string \<Rightarrow> 'c UseXAxisTitleProps \<Rightarrow> string" where
  "xAxisTitle_callback formatLabel AXIS_TITLE_SEPARATOR props =
     (if \<not> isSupportedChartForAxisTitles props \<or> xAxisAxisTitle props = TitleString ''''
         \<or> \<not> js_truthy (xAxisShowAxisTitle props)
      then ''''
      else (case xAxisAxisTitle props of
              TitleString t \<Rightarrow>
                (if t \<noteq> '''' then t
                 else js_join AXIS_TITLE_SEPARATOR
                        (map (\<lambda>x. formatLabel x (ref_value (columnLabelFormats props) x) True)
                           (axis_x (selectedAxis props))))
            | _ \<Rightarrow>
                js_join AXIS_TITLE_SEPARATOR
                  (map (\<lambda>x. formatLabel x (ref_value (columnLabelFormats props) x) True)
                     (axis_x (selectedAxis props)))))"

text \<open>
  \<open>useXAxisTitle\<close>, one render: the hook takes the state left by the previous render of
  the component (\<open>mount\<close> for the first) and returns the title and the new state. The
  first memo depends on \<open>[xAxis, isSupportedChartForAxisTitles, columnLabelFormats]\<close> and
  yields a new array each time its callback runs; the second depends on
  \<open>[xAxisAxisTitle, isSupportedChartForAxisTitles, xAxisShowAxisTitle, xAxis,
  xAxisColumnLabelFormats]\<close>, as in the source: \<open>selectedAxis\<close> is read by the callback
  but is not among the dependencies.
\<close>

definition useXAxisTitle ::
  "(string \<Rightarrow> 'c option \<Rightarrow> bool \<Rightarrow> string) \<Rightarrow> string \<Rightarrow> 'c hook_state \<Rightarrow>
   'c UseXAxisTitleProps \<Rightarrow> string \<times> 'c hook_state" where
  "useXAxisTitle formatLabel AXIS_TITLE_SEPARATOR st props =
     (let formats_deps = (ref_id (xAxis props), isSupportedChartForAxisTitles props,
                          ref_id (columnLabelFormats props));
          (xAxisColumnLabelFormats, formats_cell') =
            useMemo (formats_cell st)
              \<lparr> ref_id = allocated st,
                ref_value = map (\<lambda>x. ref_value (columnLabelFormats props) x)
                              (ref_value (xAxis props)) \<rparr>
              formats_deps;
          allocated' = (if memo_runs (formats_cell st) formats_deps
                        then Suc (allocated st) else allocated st);
          (xAxisTitle, title_cell') =
            useMemo (title_cell st)
              (xAxisTitle_callback formatLabel AXIS_TITLE_SEPARATOR props)
              (xAxisAxisTitle props, isSupportedChartForAxisTitles props,
               xAxisShowAxisTitle props, ref_id (xAxis props), ref_id xAxisColumnLabelFormats)
      in (xAxisTitle,
          \<lparr> formats_cell = formats_cell', title_cell = title_cell',
            allocated = allocated' \<rparr>))"

section \<open>REST requests for permission groups (permission_groups/requests.ts)\<close>

datatype http_method = GET | PUT | POST | DELETE

text \<open>
  An assignment record \<open>{id, assigned}\<close> (the field \<open>id\<close> is \<open>id'\<close> here). Cached rows
  and datasets carry further fields; they are the extensions \<open>'a Assigned_scheme\<close> of
  this record, and \<open>{...row, assigned: v}\<close> is the record update \<open>row\<lparr>assigned := v\<rparr>\<close>,
  which leaves every other field as it is.
\<close>

record Assigned =
  id' :: string
  assigned :: bool

text \<open>The \<open>{id, name}\<close> items of \<open>updatePermissionGroups\<close>.\<close>

record Named =
  named_id :: string
  name :: string

text \<open>The request bodies the functions send: \<open>{name}\<close> and the two kinds of lists.\<close>

datatype request_body =
    NameBody string
  | NamedItems "Named list"
  | AssignedItems "Assigned list"

record http_request =
  req_method :: http_method
  req_url :: string
  req_body :: "request_body option"

text \<open>
  The response of the HTTP client, of which the functions read \<open>data\<close> (\<open>data'\<close> here).
\<close>

record 'r AxiosResponse =
  data' :: 'r

text \<open>
  The effects a call can have on its environment, in the order they happen: an HTTP
  request handed to the client, a write to the query cache, an invalidation of a query
  key.
\<close>

datatype event =
    HttpRequest http_request
  | SetQueryData "string list"
  | InvalidateQueries "string list"

text \<open>
  A promise is modelled by the events its creation caused and its outcome: \<open>Inl e\<close> when
  it rejects with \<open>e\<close>, \<open>Inr v\<close> when it resolves with \<open>v\<close>. The HTTP client \<open>mainApi\<close>
  (from \<open>../instances\<close>) is a parameter: a function from the request to the outcome of
  that request. An \<open>async\<close> function that returns \<open>await p\<close> has the outcome of \<open>p\<close>.
\<close>

type_synonym ('e, 'a) promise = "event list \<times> ('e + 'a)"

text \<open>
  \<open>mainApi.get(url)\<close>, \<open>mainApi.delete(url)\<close>, \<open>mainApi.put(url, data)\<close> and
  \<open>mainApi.post(url, data)\<close>: each hands exactly one request to the client.
\<close>

definition api_get :: "(http_request \<Rightarrow> 'e + 'r AxiosResponse) \<Rightarrow> string \<Rightarrow>
    ('e, 'r AxiosResponse) promise" where
  "api_get mainApi url' =
     (let req = \<lparr> req_method = GET, req_url = url', req_body = None \<rparr>
      in ([HttpRequest req], mainApi req))"

definition api_delete :: "(http_request \<Rightarrow> 'e + 'r AxiosResponse) \<Rightarrow> string \<Rightarrow>
    ('e, 'r AxiosResponse) promise" where
  "api_delete mainApi url' =
     (let req = \<lparr> req_method = DELETE, req_url = url', req_body = None \<rparr>
      in ([HttpRequest req], mainApi req))"

definition api_put :: "(http_request \<Rightarrow> 'e + 'r AxiosResponse) \<Rightarrow> string \<Rightarrow> request_body \<Rightarrow>
    ('e, 'r AxiosResponse) promise" where
  "api_put mainApi url' body' =
     (let req = \<lparr> req_method = PUT, req_url = url', req_body = Some body' \<rparr>
      in ([HttpRequest req], mainApi req))"

definition api_post :: "(http_request \<Rightarrow> 'e + 'r AxiosResponse) \<Rightarrow> string \<Rightarrow> request_body \<Rightarrow>
    ('e, 'r AxiosResponse) promise" where
  "api_post mainApi url' body' =
     (let req = \<lparr> req_method = POST, req_url = url', req_body = Some body' \<rparr>
      in ([HttpRequest req], mainApi req))"

text \<open>\<open>p.then(f)\<close>: a rejection passes through unchanged, a value is mapped.\<close>

definition then' :: "('e, 'a) promise \<Rightarrow> ('a \<Rightarrow> 'b) \<Rightarrow> ('e, 'b) promise" where
  "then' p f = (fst p, (case snd p of Inl e \<Rightarrow> Inl e | Inr v \<Rightarrow> Inr (f v)))"

text \<open>
  The eleven request functions of the module, in the order of the source. Their
  parameters \<open>id\<close>, \<open>data\<close> and \<open>name\<close> are \<open>ident\<close>, \<open>body'\<close> and \<open>name'\<close> here.
\<close>

definition listAllPermissionGroups ::
  "(http_request \<Rightarrow> 'e + 'r AxiosResponse) \<Rightarrow> ('e, 'r) promise" where
  "listAllPermissionGroups mainApi =
     then' (api_get mainApi ''/permission_groups'') (\<lambda>res. data' res)"

definition getPermissionGroup ::
  "(http_request \<Rightarrow> 'e + 'r AxiosResponse) \<Rightarrow> string \<Rightarrow> ('e, 'r) promise" where
  "getPermissionGroup mainApi ident =
     then' (api_get mainApi (''/permission_groups/'' @ ident)) (\<lambda>res. data' res)"

definition updatePermissionGroups ::
  "(http_request \<Rightarrow> 'e + 'r AxiosResponse) \<Rightarrow> string \<Rightarrow> Named list \<Rightarrow> ('e, 'r) promise" where
  "updatePermissionGroups mainApi ident body' =
     then' (api_put mainApi (''/permission_groups/'' @ ident) (NamedItems body'))
       (\<lambda>res. data' res)"

definition deletePermissionGroup ::
  "(http_request \<Rightarrow> 'e + 'r AxiosResponse) \<Rightarrow> string \<Rightarrow> ('e, 'r) promise" where
  "deletePermissionGroup mainApi ident =
     then' (api_delete mainApi (''/permission_groups/'' @ ident)) (\<lambda>res. data' res)"

definition createPermissionGroup ::
  "(http_request \<Rightarrow> 'e + 'r AxiosResponse) \<Rightarrow> string \<Rightarrow> ('e, 'r) promise" where
  "createPermissionGroup mainApi name' =
     then' (api_post mainApi ''/permission_groups'' (NameBody name')) (\<lambda>res. data' res)"

definition getPermissionGroupUsers ::
  "(http_request \<Rightarrow> 'e + 'r AxiosResponse) \<Rightarrow> string \<Rightarrow> ('e, 'r) promise" where
  "getPermissionGroupUsers mainApi ident =
     then' (api_get mainApi (''/permission_groups/'' @ ident @ ''/users'')) (\<lambda>res. data' res)"

definition getPermissionGroupDatasets ::
  "(http_request \<Rightarrow> 'e + 'r AxiosResponse) \<Rightarrow> string \<Rightarrow> ('e, 'r) promise" where
  "getPermissionGroupDatasets mainApi ident =
     then' (api_get mainApi (''/permission_groups/'' @ ident @ ''/datasets''))
       (\<lambda>res. data' res)"

definition getPermissionGroupDatasetGroups ::
  "(http_request \<Rightarrow> 'e + 'r AxiosResponse) \<Rightarrow> string \<Rightarrow> ('e, 'r) promise" where
  "getPermissionGroupDatasetGroups mainApi ident =
     then' (api_get mainApi (''/permission_groups/'' @ ident @ ''/dataset_groups''))
       (\<lambda>res. data' res)"

definition updatePermissionGroupUsers ::
  "(http_request \<Rightarrow> 'e + 'r AxiosResponse) \<Rightarrow> string \<Rightarrow> Assigned list \<Rightarrow> ('e, 'r) promise" where
  "updatePermissionGroupUsers mainApi ident body' =
     then' (api_put mainApi (''/permission_groups/'' @ ident @ ''/users'') (AssignedItems body'))
       (\<lambda>res. data' res)"

definition updatePermissionGroupDatasets ::
  "(http_request \<Rightarrow> 'e + 'r AxiosResponse) \<Rightarrow> string \<Rightarrow> Assigned list \<Rightarrow> ('e, 'r) promise" where
  "updatePermissionGroupDatasets mainApi ident body' =
     then' (api_put mainApi (''/permission_groups/'' @ ident @ ''/datasets'')
              (AssignedItems body'))
       (\<lambda>res. data' res)"

definition updatePermissionGroupDatasetGroups ::
  "(http_request \<Rightarrow> 'e + 'r AxiosResponse) \<Rightarrow> string \<Rightarrow> Assigned list \<Rightarrow> ('e, 'r) promise" where
  "updatePermissionGroupDatasetGroups mainApi ident body' =
     then' (api_put mainApi (''/permission_groups/'' @ ident @ ''/dataset_groups'')
              (AssignedItems body'))
       (\<lambda>res. data' res)"

section \<open>Query cache and mutation hooks (dataset_groups/queryRequests.ts)\<close>

text \<open>
  The state the hooks act on: the data of the query cache by query key, and the events
  so far. \<open>setQueryData\<close> with an updater function applies the updater to the cached
  data (\<open>undefined\<close> when there is none) and stores the result; an exception of the
  updater propagates and nothing is stored. \<open>invalidateQueries\<close> is recorded as an
  event. Both belong to the cache library.
\<close>

record 'd world =
  cache :: "string list \<rightharpoonup> 'd"
  events :: "event list"

definition setQueryData ::
  "string list \<Rightarrow> ('d option \<Rightarrow> js_error + 'd) \<Rightarrow> 'd world \<Rightarrow> js_error + 'd world" where
  "setQueryData queryKey updater w =
     (case updater (cache w queryKey) of
        Inl err \<Rightarrow> Inl err
      | Inr newData \<Rightarrow>
          Inr (w\<lparr> cache := (cache w)(queryKey \<mapsto> newData),
                  events := events w @ [SetQueryData queryKey] \<rparr>))"

definition invalidateQueries :: "string list \<Rightarrow> 'd world \<Rightarrow> 'd world" where
  "invalidateQueries queryKey w = w\<lparr> events := events w @ [InvalidateQueries queryKey] \<rparr>"

text \<open>Calling a request function: its events happen now, its outcome is returned.\<close>

definition call :: "('e, 'r) promise \<Rightarrow> 'd world \<Rightarrow> ('e + 'r) \<times> 'd world" where
  "call p w = (snd p, w\<lparr> events := events w @ fst p \<rparr>)"

text \<open>
  The mutation functions of \<open>useDeleteDatasetGroup\<close> and \<open>useUpdateDatasetGroup\<close>. The
  request functions \<open>deleteDatasetGroup\<close> and \<open>updateDatasetGroup\<close> are imported from
  \<open>./requests\<close> of \<open>dataset_groups\<close> and are parameters. \<open>await\<close> on a rejected promise
  throws, so the statements after it do not run.
\<close>

definition useDeleteDatasetGroup ::
  "(string \<Rightarrow> ('e, 'r) promise) \<Rightarrow> string \<Rightarrow> 'd world \<Rightarrow> ('e + 'r) \<times> 'd world" where
  "useDeleteDatasetGroup deleteDatasetGroup ident w =
     (case call (deleteDatasetGroup ident) w of
        (Inl err, w') \<Rightarrow> (Inl err, w')
      | (Inr res, w') \<Rightarrow> (Inr res, invalidateQueries [''dataset_groups''] w'))"

definition useUpdateDatasetGroup ::
  "('p \<Rightarrow> ('e, 'r) promise) \<Rightarrow> 'p \<Rightarrow> 'd world \<Rightarrow> ('e + 'r) \<times> 'd world" where
  "useUpdateDatasetGroup updateDatasetGroup body' w =
     (case call (updateDatasetGroup body') w of
        (Inl err, w') \<Rightarrow> (Inl err, w')
      | (Inr res, w') \<Rightarrow> (Inr res, invalidateQueries [''dataset_groups''] w'))"

text \<open>
  The mutation functions of the three assignment hooks. The updater reads \<open>oldData.map\<close>,
  which raises a \<open>TypeError\<close> when nothing is cached under the key; the exception leaves
  the mutation function before the request function is called. The request functions
  are parameters, as above.
\<close>

definition useUpdateDatasetGroupUsers ::
  "(string \<Rightarrow> Assigned list \<Rightarrow> ('e, 'r) promise) \<Rightarrow> string \<Rightarrow> Assigned list \<Rightarrow>
   'a Assigned_scheme list world \<Rightarrow> js_error + (('e + 'r) \<times> 'a Assigned_scheme list world)" where
  "useUpdateDatasetGroupUsers updateDatasetGroupUsers datasetGroupId body' w =
     (case setQueryData [''dataset_groups'', datasetGroupId, ''users'']
             (\<lambda>oldData. case oldData of
                  None \<Rightarrow> Inl TypeError
                | Some rows \<Rightarrow>
                    Inr (map (\<lambda>user.
                           (case js_find (\<lambda>d. id' d = id' user) body' of
                              Some userToUpdate \<Rightarrow> user\<lparr> assigned := assigned userToUpdate \<rparr>
                            | None \<Rightarrow> user)) rows)) w of
        Inl err \<Rightarrow> Inl err
      | Inr w' \<Rightarrow> Inr (call (updateDatasetGroupUsers datasetGroupId body') w'))"

definition useUpdateDatasetGroupDatasets ::
  "(string \<Rightarrow> Assigned list \<Rightarrow> ('e, 'r) promise) \<Rightarrow> string \<Rightarrow> Assigned list \<Rightarrow>
   'a Assigned_scheme list world \<Rightarrow> js_error + (('e + 'r) \<times> 'a Assigned_scheme list world)" where
  "useUpdateDatasetGroupDatasets updateDatasetGroupDatasets datasetGroupId body' w =
     (case setQueryData [''dataset_groups'', datasetGroupId, ''datasets'']
             (\<lambda>oldData. case oldData of
                  None \<Rightarrow> Inl TypeError
                | Some rows \<Rightarrow>
                    Inr (map (\<lambda>dataset.
                           (case js_find (\<lambda>d. id' d = id' dataset) body' of
                              Some datasetToUpdate \<Rightarrow>
                                dataset\<lparr> assigned := assigned datasetToUpdate \<rparr>
                            | None \<Rightarrow> dataset)) rows)) w of
        Inl err \<Rightarrow> Inl err
      | Inr w' \<Rightarrow> Inr (call (updateDatasetGroupDatasets datasetGroupId body') w'))"

definition useUpdateDatasetGroupPermissionGroups ::
  "(string \<Rightarrow> Assigned list \<Rightarrow> ('e, 'r) promise) \<Rightarrow> string \<Rightarrow> Assigned list \<Rightarrow>
   'a Assigned_scheme list world \<Rightarrow> js_error + (('e + 'r) \<times> 'a Assigned_scheme list world)" where
  "useUpdateDatasetGroupPermissionGroups updateDatasetGroupPermissionGroups datasetGroupId
     body' w =
     (case setQueryData [''dataset_groups'', datasetGroupId, ''permission_groups'']
             (\<lambda>oldData. case oldData of
                  None \<Rightarrow> Inl TypeError
                | Some rows \<Rightarrow>
                    Inr (map (\<lambda>permissionGroup.
                           (case js_find (\<lambda>d. id' d = id' permissionGroup) body' of
                              Some permissionGroupToUpdate \<Rightarrow>
                                permissionGroup\<lparr> assigned := assigned permissionGroupToUpdate \<rparr>
                            | None \<Rightarrow> permissionGroup)) rows)) w of
        Inl err \<Rightarrow> Inl err
      | Inr w' \<Rightarrow> Inr (call (updateDatasetGroupPermissionGroups datasetGroupId body') w'))"

section \<open>Rows of the user datasets list (UserDatasetsListContainer.tsx)\<close>

text \<open>
  A row of the list: a dataset row has \<open>id\<close>, \<open>data\<close> and \<open>link\<close>, a section header
  has \<open>id\<close>, an empty \<open>data\<close> object (\<open>None\<close>), \<open>hidden\<close> and \<open>rowSection\<close>. A
  property an object does not have is \<open>None\<close>. The fields \<open>id\<close>, \<open>data\<close> and \<open>hidden\<close>
  are \<open>row_id\<close>, \<open>row_data\<close> and \<open>row_hidden\<close> here.
\<close>

record RowSection =
  title :: string
  secondaryTitle :: string

record 'd BusterListRowItem =
  row_id :: string
  row_data :: "'d option"
  link :: "string option"
  row_hidden :: "bool option"
  rowSection :: "RowSection option"

record 'd PermissionUsers =
  cannotQueryPermissionUsers :: "'d BusterListRowItem list"
  canQueryPermissionUsers :: "'d BusterListRowItem list"

text \<open>
  The \<open>reduce\<close> that sorts the datasets into the two lists, each \<open>push\<close> appending at
  the end, and the \<open>rows\<close> memo built from them. \<open>createBusterRoute\<close> (from \<open>@/routes\<close>),
  applied to the settings route and the dataset's id, is a parameter.
\<close>

definition UserDatasetsListContainer_partition ::
  "(string \<Rightarrow> string) \<Rightarrow> 'a Assigned_scheme list \<Rightarrow> 'a Assigned_scheme PermissionUsers" where
  "UserDatasetsListContainer_partition createBusterRoute filteredDatasets =
     foldl (\<lambda>acc dataset.
              (let user = \<lparr> row_id = id' dataset, row_data = Some dataset,
                            link = Some (createBusterRoute (id' dataset)),
                            row_hidden = None, rowSection = None \<rparr>
               in if assigned dataset
                  then acc\<lparr> canQueryPermissionUsers := canQueryPermissionUsers acc @ [user] \<rparr>
                  else acc\<lparr> cannotQueryPermissionUsers :=
                              cannotQueryPermissionUsers acc @ [user] \<rparr>))
       \<lparr> cannotQueryPermissionUsers = [], canQueryPermissionUsers = [] \<rparr>
       filteredDatasets"

definition UserDatasetsListContainer_rows ::
  "(string \<Rightarrow> string) \<Rightarrow> 'a Assigned_scheme list \<Rightarrow> 'a Assigned_scheme BusterListRowItem list" where
  "UserDatasetsListContainer_rows createBusterRoute filteredDatasets =
     (let result = UserDatasetsListContainer_partition createBusterRoute filteredDatasets;
          cannotQuery = cannotQueryPermissionUsers result;
          canQuery = canQueryPermissionUsers result
      in filter (\<lambda>row. \<not> js_truthy (row_hidden row))
           ([\<lparr> row_id = ''header-assigned'', row_data = None, link = None,
               row_hidden = Some (length canQuery = 0),
               rowSection = Some \<lparr> title = ''Assigned'',
                                   secondaryTitle = toString (length canQuery) \<rparr> \<rparr>]
            @ canQuery
            @ [\<lparr> row_id = ''header-not-assigned'', row_data = None, link = None,
                 row_hidden = Some (length cannotQuery = 0),
                 rowSection = Some \<lparr> title = ''Not Assigned'',
                                     secondaryTitle = toString (length cannotQuery) \<rparr> \<rparr>]
            @ cannotQuery))"

text \<open>
  Names for the two kinds of rows the component builds, used to state what the row list
  contains: the row of a dataset, and a visible section header with its title and the
  count shown beside it.
\<close>

definition dataset_row :: "(string \<Rightarrow> string) \<Rightarrow> 'a Assigned_scheme \<Rightarrow>
    'a Assigned_scheme BusterListRowItem" where
  "dataset_row createBusterRoute dataset =
     \<lparr> row_id = id' dataset, row_data = Some dataset,
       link = Some (createBusterRoute (id' dataset)), row_hidden = None, rowSection = None \<rparr>"

definition section_header :: "string \<Rightarrow> string \<Rightarrow> nat \<Rightarrow> 'd BusterListRowItem" where
  "section_header ident title' n =
     \<lparr> row_id = ident, row_data = None, link = None, row_hidden = Some False,
       rowSection = Some \<lparr> title = title', secondaryTitle = toString n \<rparr> \<rparr>"

section \<open>Concrete inputs\<close>

text \<open>
  Inputs on which the theorems below are instantiated. The formatters stand for the
  helpers that are parameters of the model. \<open>example_request\<close> and \<open>example_delete\<close>
  have the shape the interface description gives for the dataset-group endpoints: one
  \<open>PUT\<close> of the assignment list, one \<open>DELETE\<close> of the group.
\<close>

definition example_datasets :: "rat option ChartDataset list" where
  "example_datasets =
     [\<lparr> label = ''sales'', hidden = False, data = [Some 1, Some 3],
        backgroundColor = Some [''red'', ''blue''] \<rparr>,
      \<lparr> label = ''cost'', hidden = True, data = [Some 5, Some 6], backgroundColor = None \<rparr>,
      \<lparr> label = ''sales'', hidden = True, data = [Some 1, Some 3], backgroundColor = None \<rparr>]"

text \<open>The same datasets, the visible one without \<open>backgroundColor\<close>.\<close>

definition uncoloured_datasets :: "rat option ChartDataset list" where
  "uncoloured_datasets =
     [\<lparr> label = ''sales'', hidden = False, data = [Some 1, Some 3], backgroundColor = None \<rparr>,
      \<lparr> label = ''cost'', hidden = True, data = [Some 5, Some 6], backgroundColor = None \<rparr>,
      \<lparr> label = ''sales'', hidden = True, data = [Some 1, Some 3], backgroundColor = None \<rparr>]"

definition example_chart :: "rat option Chart" where
  "example_chart = \<lparr> totalizer = \<lparr> seriesTotals = [Some 4, Some 11, Some 4] \<rparr> \<rparr>"

definition example_percentageFormatter :: "rat option \<Rightarrow> string \<Rightarrow> unit \<Rightarrow> string" where
  "example_percentageFormatter p l f =
     (if p = Some 75 then ''75%'' else if p = Some 25 then ''25%'' else ''other'')"

definition example_formatValue :: "rat option \<Rightarrow> string \<Rightarrow> unit \<Rightarrow> string" where
  "example_formatValue v l f =
     (if v = Some 3 then ''3'' else if v = Some 6 then ''6'' else ''other'')"

definition example_formatChartLabel :: "string \<Rightarrow> unit \<Rightarrow> string" where
  "example_formatChartLabel l f = l"

text \<open>
  Two consecutive renders of the axis-title hook: the props of the second are those of
  the first (the same \<open>xAxis\<close> array and the same \<open>columnLabelFormats\<close> object) but for
  \<open>selectedAxis\<close>, whose \<open>x\<close> has gained a column.
\<close>

definition example_props :: "string UseXAxisTitleProps" where
  "example_props =
     \<lparr> xAxis = \<lparr> ref_id = 1, ref_value = [''month''] \<rparr>,
       columnLabelFormats = \<lparr> ref_id = 2, ref_value = [''month'' \<mapsto> ''Month''] \<rparr>,
       isSupportedChartForAxisTitles = True,
       xAxisAxisTitle = TitleUndefined,
       xAxisShowAxisTitle = Some True,
       selectedAxis = \<lparr> axis_x = [''month''] \<rparr> \<rparr>"

definition example_props_next :: "string UseXAxisTitleProps" where
  "example_props_next = example_props\<lparr> selectedAxis := \<lparr> axis_x = [''month'', ''region''] \<rparr> \<rparr>"

definition example_formatLabel :: "string \<Rightarrow> string option \<Rightarrow> bool \<Rightarrow> string" where
  "example_formatLabel x fmt useKey = (case fmt of Some display \<Rightarrow> display | None \<Rightarrow> x)"

definition example_api :: "http_request \<Rightarrow> string + string AxiosResponse" where
  "example_api req =
     (if req_method req = GET then Inl ''Network Error'' else Inr \<lparr> data' = ''ok'' \<rparr>)"

definition failing_api :: "http_request \<Rightarrow> string + string AxiosResponse" where
  "failing_api req = Inl ''Network Error''"

record ExampleUserRow = Assigned +
  email :: string

definition example_request :: "string \<Rightarrow> Assigned list \<Rightarrow> (string, unit) promise" where
  "example_request datasetGroupId body' =
     ([HttpRequest \<lparr> req_method = PUT,
                      req_url = ''/dataset_groups/'' @ datasetGroupId @ ''/users'',
                      req_body = Some (AssignedItems body') \<rparr>], Inr ())"

definition example_world :: "ExampleUserRow list world" where
  "example_world =
     \<lparr> cache = [[''dataset_groups'', ''g1'', ''users''] \<mapsto>
                 [\<lparr> id' = ''u1'', assigned = False, email = ''a@x.io'' \<rparr>,
                  \<lparr> id' = ''u2'', assigned = True, email = ''b@x.io'' \<rparr>],
               [''dataset_groups'', ''g1'', ''datasets''] \<mapsto>
                 [\<lparr> id' = ''u1'', assigned = False, email = ''a@x.io'' \<rparr>],
               [''dataset_groups'', ''g1'', ''permission_groups''] \<mapsto>
                 [\<lparr> id' = ''u2'', assigned = True, email = ''b@x.io'' \<rparr>]],
       events = [] \<rparr>"

definition example_update :: "Assigned list" where
  "example_update = [\<lparr> id' = ''u1'', assigned = True \<rparr>, \<lparr> id' = ''u1'', assigned = False \<rparr>]"

definition example_delete :: "string \<Rightarrow> (string, unit) promise" where
  "example_delete ident =
     ([HttpRequest \<lparr> req_method = DELETE, req_url = ''/dataset_groups/'' @ ident,
                      req_body = None \<rparr>],
      (if ident = ''missing'' then Inl ''404'' else Inr ()))"

definition example_user_datasets :: "Assigned list" where
  "example_user_datasets =
     [\<lparr> id' = ''d1'', assigned = False \<rparr>, \<lparr> id' = ''d2'', assigned = True \<rparr>,
      \<lparr> id' = ''d3'', assigned = False \<rparr>, \<lparr> id' = ''d4'', assigned = True \<rparr>]"

section \<open>Properties of the pie-chart tooltip\<close>

text \<open>
  \<open>findIndex\<close> returns the least index at which the predicate holds, whenever there is
  one.
\<close>

lemma findIndex_first:
  "\<exists>x\<in>set xs. P x \<Longrightarrow>
   0 \<le> findIndex P xs \<and> nat (findIndex P xs) < length xs \<and> P (xs ! nat (findIndex P xs)) \<and>
   (\<forall>m < nat (findIndex P xs). \<not> P (xs ! m))"
proof (induction xs)
  case Nil
  then show ?case by simp
next
  case (Cons x xs)
  show ?case
  proof (cases "P x")
    case True
    then show ?thesis by simp
  next
    case False
    with Cons.prems have ex: "\<exists>y\<in>set xs. P y" by auto
    from Cons.IH [OF ex] have ih0: "0 \<le> findIndex P xs"
      and ih1: "nat (findIndex P xs) < length xs"
      and ih2: "P (xs ! nat (findIndex P xs))"
      and ih3: "\<forall>m < nat (findIndex P xs). \<not> P (xs ! m)" by auto
    have eq: "findIndex P (x # xs) = findIndex P xs + 1"
      using False ih0 by (simp add: Let_def)
    have n: "nat (findIndex P xs + 1) = Suc (nat (findIndex P xs))"
      using ih0 by (simp add: nat_add_distrib)
    show ?thesis
      unfolding eq n using ih0 ih1 ih2 ih3 False
      by (auto simp: nth_Cons split: nat.splits)
  qed
qed

text \<open>\<open>getPiePercentage\<close> without its local names.\<close>

lemma getPiePercentage_unfold:
  "getPiePercentage ops pf i j d lbl formats chart =
   pf (js_mul ops (js_div ops (js_at ops d i) (js_at ops (seriesTotals (totalizer chart)) j))
         (js_hundred ops)) lbl formats"
  by (simp add: getPiePercentage_def)

text \<open>
  Claim C1. For every data index \<open>i\<close>, dataset index \<open>j\<close>, data array \<open>d\<close>, label,
  column-label formats and chart whose series totals are defined at \<open>j\<close>,
  \<open>getPiePercentage\<close> returns \<open>percentageFormatter\<close> applied to
  \<open>(d[i] / seriesTotals[j]) * 100\<close>, the label and the formats: the raw value at the data
  index divided by the series total, times one hundred, formatted by the helper.
\<close>

theorem getPiePercentage_value:
  assumes "0 \<le> j" and "j < int (length (seriesTotals (totalizer chart)))"
  shows "getPiePercentage ops percentageFormatter i j d lbl formats chart =
         percentageFormatter
           (js_mul ops (js_div ops (js_at ops d i) (seriesTotals (totalizer chart) ! nat j))
              (js_hundred ops))
           lbl formats"
  using assms by (simp add: getPiePercentage_def js_at_def js_get_def)

theorem getPiePercentage_value_witness:
  "(0::int) \<le> 1 \<and> (1::int) < int (length (seriesTotals (totalizer
      \<lparr> totalizer = \<lparr> seriesTotals = [Some 8, Some (4::rat)] \<rparr> \<rparr>))) \<and>
   getPiePercentage exact_ops (\<lambda>p l f. (if p = Some 25 then ''25%'' else ''?'')) 0 1
     [Some 1, Some 3] ''sales'' ()
     \<lparr> totalizer = \<lparr> seriesTotals = [Some 8, Some (4::rat)] \<rparr> \<rparr> = ''25%''"
  using getPiePercentage_value [of 1 "\<lparr> totalizer = \<lparr> seriesTotals = [Some 8, Some (4::rat)] \<rparr> \<rparr>"
      exact_ops "\<lambda>p l f. (if p = Some 25 then ''25%'' else ''?'')" 0 "[Some 1, Some 3]"
      "''sales''" "()"]
  by (simp add: exact_ops_def js_at_def js_get_def)

text \<open>
  A \<open>map\<close> whose callback never throws is the plain map; a \<open>map\<close> whose callback
  throws at some element throws.
\<close>

lemma js_map_total: "js_map (\<lambda>x. Inr (g x)) xs = Inr (map g xs)"
  by (induction xs) simp_all

lemma js_map_throws:
  "x \<in> set xs \<Longrightarrow> f x = Inl TypeError \<Longrightarrow> js_map f xs = Inl TypeError"
proof (induction xs)
  case Nil
  then show ?case by simp
next
  case (Cons a xs)
  show ?case
  proof (cases "f a")
    case (Inl err)
    then show ?thesis by (cases err) simp
  next
    case (Inr y)
    with Cons.prems have "x \<in> set xs" by auto
    from Cons.IH [OF this Cons.prems(2)] Inr show ?thesis by simp
  qed
qed

lemma colour_read:
  "(case (if b then Inr c else Inr c') of Inl err \<Rightarrow> f err | Inr v \<Rightarrow> g v) =
   g (if b then c else c')"
  by simp

text \<open>
  When the active data point lies in a dataset that has a \<open>backgroundColor\<close> and whose
  label is the label of some hidden dataset, the helper returns one item per hidden
  dataset.
\<close>

lemma pieTooltipHelper_active:
  assumes "js_get datasets (datasetIndex dp) = Some active"
    and "\<exists>d\<in>set datasets. hidden d \<and> label d = label active"
    and "backgroundColor active = Some colors"
  shows "pieTooltipHelper ops fl fv pf datasets (dp # rest) chart formats keys =
     Inr (map (\<lambda>td.
        \<lparr> usePercentage = (label td \<in> set keys),
          color = (if label td = label active
                   then js_get colors (dataIndex dp) else None),
          seriesType = ''pie'',
          formattedLabel = fl (label td) formats,
          values' = [\<lparr> formattedValue = fv (js_at ops (data td) (dataIndex dp)) (label td) formats,
                      valueFormattedLabel = fl (label td) formats,
                      formattedPercentage =
                        (if label td \<in> set keys
                         then Some (getPiePercentage ops pf (dataIndex dp)
                                (findIndex (\<lambda>d. label d = label td \<and> hidden d) datasets)
                                (data td) (label td) formats chart)
                         else None) \<rparr>] \<rparr>) (filter hidden datasets))"
proof -
  have "list_ex (\<lambda>d. label d = label active) (filter hidden datasets)"
    using assms(2) by (auto simp: list_ex_iff)
  then show ?thesis
    using assms(1,3)
    by (simp add: pieTooltipHelper_def Let_def colour_read js_map_total cong: if_cong)
qed

text \<open>
  When the active dataset has no \<open>backgroundColor\<close>, the same call raises a \<open>TypeError\<close>:
  some hidden dataset has the active label, and the callback of \<open>map\<close> reads the colour
  for it.
\<close>

lemma pieTooltipHelper_uncoloured:
  assumes "js_get datasets (datasetIndex dp) = Some active"
    and "\<exists>d\<in>set datasets. hidden d \<and> label d = label active"
    and "backgroundColor active = None"
  shows "pieTooltipHelper ops fl fv pf datasets (dp # rest) chart formats keys = Inl TypeError"
proof -
  from assms(2) obtain d where d: "d \<in> set (filter hidden datasets)" "label d = label active"
    by auto
  then have ex: "list_ex (\<lambda>d. label d = label active) (filter hidden datasets)"
    by (auto simp: list_ex_iff)
  show ?thesis
    using assms(1,3) ex
    by (simp add: pieTooltipHelper_def Let_def) (rule js_map_throws [OF d(1)], simp add: d(2))
qed

text \<open>
  Claim C2, as stated: for every call with a non-empty \<open>dataPoints\<close> list whose active
  dataset has the label of some hidden dataset, the helper returns one item per hidden
  dataset. It fails when the active dataset has no \<open>backgroundColor\<close>: the three
  datasets below satisfy the claim's condition (the point is in the visible dataset
  \<open>sales\<close>, the third dataset is hidden and has that label), and the call raises a
  \<open>TypeError\<close> instead of returning a list.
\<close>

theorem pieTooltipHelper_items_counterexample:
  "js_get uncoloured_datasets (datasetIndex \<lparr> dataIndex = 1, datasetIndex = 0 \<rparr>) =
     Some (uncoloured_datasets ! 0) \<and>
   hidden (uncoloured_datasets ! 2) \<and>
   label (uncoloured_datasets ! 2) = label (uncoloured_datasets ! 0) \<and>
   pieTooltipHelper exact_ops example_formatChartLabel example_formatValue
     example_percentageFormatter uncoloured_datasets [\<lparr> dataIndex = 1, datasetIndex = 0 \<rparr>]
     example_chart () [''sales''] = Inl TypeError"
  by (simp add: uncoloured_datasets_def js_get_def pieTooltipHelper_def Let_def)

text \<open>
  Claim C2, amended. For a non-empty \<open>dataPoints\<close> list whose active dataset has a
  \<open>backgroundColor\<close> array and the label of some hidden dataset, \<open>pieTooltipHelper\<close>
  returns exactly one item per hidden dataset, in the order of the \<open>datasets\<close> array
  (item \<open>k\<close> belongs to the \<open>k\<close>-th hidden dataset), so that visible datasets contribute
  nothing. Each item carries the formatted label of its hidden dataset and the formatted
  value of that dataset at the active data index. When a percentage is shown, it is that
  value divided by the series total at index \<open>j\<close>, times one hundred, where \<open>j\<close> is the
  index in \<open>datasets\<close> of the first hidden dataset with the item's label.
\<close>

theorem pieTooltipHelper_items:
  assumes nonempty: "dataPoints = dp # rest"
    and active: "js_get datasets (datasetIndex dp) = Some active"
    and coloured: "backgroundColor active = Some colors"
    and shown: "\<exists>d\<in>set datasets. hidden d \<and> label d = label active"
  shows "\<exists>items.
     pieTooltipHelper ops fl fv pf datasets dataPoints chart formats keys = Inr items \<and>
     length items = length (filter hidden datasets) \<and>
     (\<forall>k < length items. \<exists>j.
        0 \<le> j \<and> nat j < length datasets \<and>
        hidden (datasets ! nat j) \<and>
        label (datasets ! nat j) = label (filter hidden datasets ! k) \<and>
        (\<forall>m < nat j. \<not> (hidden (datasets ! m) \<and>
                         label (datasets ! m) = label (filter hidden datasets ! k))) \<and>
        formattedLabel (items ! k) = fl (label (filter hidden datasets ! k)) formats \<and>
        usePercentage (items ! k) = (label (filter hidden datasets ! k) \<in> set keys) \<and>
        values' (items ! k) =
          [\<lparr> formattedValue =
                fv (js_at ops (data (filter hidden datasets ! k)) (dataIndex dp))
                   (label (filter hidden datasets ! k)) formats,
              valueFormattedLabel = fl (label (filter hidden datasets ! k)) formats,
              formattedPercentage =
                (if label (filter hidden datasets ! k) \<in> set keys
                 then Some (pf (js_mul ops
                                 (js_div ops
                                    (js_at ops (data (filter hidden datasets ! k)) (dataIndex dp))
                                    (js_at ops (seriesTotals (totalizer chart)) j))
                                 (js_hundred ops))
                              (label (filter hidden datasets ! k)) formats)
                 else None) \<rparr>])"
proof -
  let ?tds = "filter hidden datasets"
  let ?f = "\<lambda>td.
        \<lparr> usePercentage = (label td \<in> set keys),
          color = (if label td = label active
                   then js_get colors (dataIndex dp) else None),
          seriesType = ''pie'',
          formattedLabel = fl (label td) formats,
          values' = [\<lparr> formattedValue = fv (js_at ops (data td) (dataIndex dp)) (label td) formats,
                      valueFormattedLabel = fl (label td) formats,
                      formattedPercentage =
                        (if label td \<in> set keys
                         then Some (getPiePercentage ops pf (dataIndex dp)
                                (findIndex (\<lambda>d. label d = label td \<and> hidden d) datasets)
                                (data td) (label td) formats chart)
                         else None) \<rparr>] \<rparr>"
  have res: "pieTooltipHelper ops fl fv pf datasets dataPoints chart formats keys =
     Inr (map ?f ?tds)"
    unfolding nonempty by (rule pieTooltipHelper_active [OF active shown coloured])
  have each: "\<exists>j.
        0 \<le> j \<and> nat j < length datasets \<and>
        hidden (datasets ! nat j) \<and>
        label (datasets ! nat j) = label (?tds ! k) \<and>
        (\<forall>m < nat j. \<not> (hidden (datasets ! m) \<and> label (datasets ! m) = label (?tds ! k))) \<and>
        formattedLabel (map ?f ?tds ! k) = fl (label (?tds ! k)) formats \<and>
        usePercentage (map ?f ?tds ! k) = (label (?tds ! k) \<in> set keys) \<and>
        values' (map ?f ?tds ! k) =
          [\<lparr> formattedValue = fv (js_at ops (data (?tds ! k)) (dataIndex dp))
                   (label (?tds ! k)) formats,
              valueFormattedLabel = fl (label (?tds ! k)) formats,
              formattedPercentage =
                (if label (?tds ! k) \<in> set keys
                 then Some (pf (js_mul ops
                                 (js_div ops (js_at ops (data (?tds ! k)) (dataIndex dp))
                                    (js_at ops (seriesTotals (totalizer chart)) j))
                                 (js_hundred ops))
                              (label (?tds ! k)) formats)
                 else None) \<rparr>]"
    if k: "k < length ?tds" for k
  proof -
    let ?td = "?tds ! k"
    let ?P = "\<lambda>d. label d = label ?td \<and> hidden d"
    let ?j = "findIndex ?P datasets"
    have "?td \<in> set ?tds" using k by (rule nth_mem)
    then have "\<exists>d\<in>set datasets. ?P d" by auto
    from findIndex_first [of datasets ?P, OF this]
    have j0: "0 \<le> ?j" and j1: "nat ?j < length datasets"
      and j2: "?P (datasets ! nat ?j)" and j3: "\<forall>m < nat ?j. \<not> ?P (datasets ! m)"
      by blast+
    show ?thesis
      apply (rule exI [of _ ?j])
      using j0 j1 j2 j3 k by (auto simp: getPiePercentage_unfold)
  qed
  show ?thesis
    apply (rule exI [of _ "map ?f ?tds"])
    using res each by simp
qed

theorem pieTooltipHelper_items_witness:
  "[\<lparr> dataIndex = 1, datasetIndex = 0 \<rparr>] = \<lparr> dataIndex = 1, datasetIndex = 0 \<rparr> # [] \<and>
   js_get example_datasets (datasetIndex \<lparr> dataIndex = 1, datasetIndex = 0 \<rparr>) =
     Some (example_datasets ! 0) \<and>
   backgroundColor (example_datasets ! 0) = Some [''red'', ''blue''] \<and>
   (\<exists>d\<in>set example_datasets. hidden d \<and> label d = label (example_datasets ! 0)) \<and>
   (\<exists>items.
      pieTooltipHelper exact_ops (\<lambda>l f. l) example_formatValue example_percentageFormatter
          example_datasets [\<lparr> dataIndex = 1, datasetIndex = 0 \<rparr>] example_chart ()
          [''sales''] = Inr items \<and>
      length items = 2 \<and>
      map formattedLabel items = [''cost'', ''sales''] \<and>
      map values' items =
        [[\<lparr> formattedValue = ''6'', valueFormattedLabel = ''cost'',
            formattedPercentage = None \<rparr>],
         [\<lparr> formattedValue = ''3'', valueFormattedLabel = ''sales'',
            formattedPercentage = Some ''75%'' \<rparr>]])"
proof -
  have h1: "[\<lparr> dataIndex = 1, datasetIndex = 0 \<rparr>] = \<lparr> dataIndex = 1, datasetIndex = 0 \<rparr> # []"
    by simp
  have h2: "js_get example_datasets (datasetIndex \<lparr> dataIndex = 1, datasetIndex = 0 \<rparr>) =
     Some (example_datasets ! 0)"
    by (simp add: js_get_def example_datasets_def)
  have h3: "\<exists>d\<in>set example_datasets. hidden d \<and> label d = label (example_datasets ! 0)"
    by (simp add: example_datasets_def)
  have h4: "backgroundColor (example_datasets ! 0) = Some [''red'', ''blue'']"
    by (simp add: example_datasets_def)
  from pieTooltipHelper_items [OF h1 h2 h4 h3, of exact_ops "\<lambda>l f. l" example_formatValue
      example_percentageFormatter example_chart "()" "[''sales'']"]
  obtain items where
    res: "pieTooltipHelper exact_ops (\<lambda>l f. l) example_formatValue example_percentageFormatter
          example_datasets [\<lparr> dataIndex = 1, datasetIndex = 0 \<rparr>] example_chart ()
          [''sales''] = Inr items"
    and len: "length items = length (filter hidden example_datasets)"
    by blast
  have ev: "pieTooltipHelper exact_ops (\<lambda>l f. l) example_formatValue example_percentageFormatter
          example_datasets [\<lparr> dataIndex = 1, datasetIndex = 0 \<rparr>] example_chart ()
          [''sales''] =
      Inr [\<lparr> usePercentage = False, color = None, seriesType = ''pie'',
              formattedLabel = ''cost'',
              values' = [\<lparr> formattedValue = ''6'', valueFormattedLabel = ''cost'',
                           formattedPercentage = None \<rparr>] \<rparr>,
           \<lparr> usePercentage = True, color = Some ''blue'', seriesType = ''pie'',
              formattedLabel = ''sales'',
              values' = [\<lparr> formattedValue = ''3'', valueFormattedLabel = ''sales'',
                           formattedPercentage = Some ''75%'' \<rparr>] \<rparr>]"
    by (simp add: pieTooltipHelper_def example_datasets_def example_chart_def js_get_def
        js_at_def getPiePercentage_def exact_ops_def example_formatValue_def
        example_percentageFormatter_def Let_def)
  from res ev have "items = [\<lparr> usePercentage = False, color = None, seriesType = ''pie'',
              formattedLabel = ''cost'',
              values' = [\<lparr> formattedValue = ''6'', valueFormattedLabel = ''cost'',
                           formattedPercentage = None \<rparr>] \<rparr>,
           \<lparr> usePercentage = True, color = Some ''blue'', seriesType = ''pie'',
              formattedLabel = ''sales'',
              values' = [\<lparr> formattedValue = ''3'', valueFormattedLabel = ''sales'',
                           formattedPercentage = Some ''75%'' \<rparr>] \<rparr>]"
    by simp
  with res h1 h2 h3 h4 show ?thesis by simp
qed

text \<open>
  Claim C8. For a non-empty \<open>dataPoints\<close> list whose active data point belongs to a
  dataset whose label is not the label of any hidden dataset, \<open>pieTooltipHelper\<close>
  returns the empty list.
\<close>

theorem pieTooltipHelper_not_in_tooltip:
  assumes "dataPoints = dp # rest"
    and "js_get datasets (datasetIndex dp) = Some active"
    and "\<forall>d\<in>set datasets. hidden d \<longrightarrow> label d \<noteq> label active"
  shows "pieTooltipHelper ops fl fv pf datasets dataPoints chart formats keys = Inr []"
  using assms by (auto simp: pieTooltipHelper_def Let_def list_ex_iff)


theorem pieTooltipHelper_not_in_tooltip_witness:
  "[\<lparr> dataIndex = 0, datasetIndex = 0 \<rparr>] = \<lparr> dataIndex = 0, datasetIndex = 0 \<rparr> # [] \<and>
   js_get [\<lparr> label = ''sales'', hidden = False, data = [Some (1::rat)], backgroundColor = None \<rparr>,
           \<lparr> label = ''cost'', hidden = True, data = [Some 5], backgroundColor = None \<rparr>]
      (datasetIndex \<lparr> dataIndex = 0, datasetIndex = 0 \<rparr>) =
     Some \<lparr> label = ''sales'', hidden = False, data = [Some 1], backgroundColor = None \<rparr> \<and>
   pieTooltipHelper exact_ops (\<lambda>l f. l) example_formatValue example_percentageFormatter
     [\<lparr> label = ''sales'', hidden = False, data = [Some 1], backgroundColor = None \<rparr>,
      \<lparr> label = ''cost'', hidden = True, data = [Some 5], backgroundColor = None \<rparr>]
     [\<lparr> dataIndex = 0, datasetIndex = 0 \<rparr>] example_chart () [''sales''] = Inr []"
proof -
  have h1: "[\<lparr> dataIndex = 0, datasetIndex = 0 \<rparr>] = \<lparr> dataIndex = 0, datasetIndex = 0 \<rparr> # []"
    by simp
  have h2: "js_get [\<lparr> label = ''sales'', hidden = False, data = [Some (1::rat)], backgroundColor = None \<rparr>,
           \<lparr> label = ''cost'', hidden = True, data = [Some 5], backgroundColor = None \<rparr>]
      (datasetIndex \<lparr> dataIndex = 0, datasetIndex = 0 \<rparr>) =
     Some \<lparr> label = ''sales'', hidden = False, data = [Some 1], backgroundColor = None \<rparr>"
    by (simp add: js_get_def)
  have h3: "\<forall>d\<in>set [\<lparr> label = ''sales'', hidden = False, data = [Some (1::rat)], backgroundColor = None \<rparr>,
           \<lparr> label = ''cost'', hidden = True, data = [Some 5], backgroundColor = None \<rparr>].
       hidden d \<longrightarrow> label d \<noteq> label \<lparr> label = ''sales'', hidden = False, data = [Some (1::rat)], backgroundColor = None \<rparr>"
    by simp
  show ?thesis
    using pieTooltipHelper_not_in_tooltip [OF h1 h2 h3, of exact_ops "\<lambda>l f. l"
        example_formatValue example_percentageFormatter example_chart "()" "[''sales'']"] h1 h2
    by simp
qed

section \<open>Properties of the x-axis title\<close>

text \<open>
  What the callback of the title memo computes from the props it is run with: the empty
  string in the three guard cases, the title when that is a non-empty string, and
  otherwise the formatted labels of \<open>selectedAxis.x\<close>, joined with the separator.
\<close>

lemma xAxisTitle_callback_cases:
  "(\<not> isSupportedChartForAxisTitles props \<or> xAxisAxisTitle props = TitleString ''''
      \<or> \<not> js_truthy (xAxisShowAxisTitle props)
      \<longrightarrow> xAxisTitle_callback formatLabel sep props = '''') \<and>
   (isSupportedChartForAxisTitles props \<and> js_truthy (xAxisShowAxisTitle props) \<and>
      xAxisAxisTitle props = TitleString t \<and> t \<noteq> ''''
      \<longrightarrow> xAxisTitle_callback formatLabel sep props = t) \<and>
   (isSupportedChartForAxisTitles props \<and> js_truthy (xAxisShowAxisTitle props) \<and>
      (xAxisAxisTitle props = TitleUndefined \<or> xAxisAxisTitle props = TitleNull)
      \<longrightarrow> xAxisTitle_callback formatLabel sep props =
            js_join sep (map (\<lambda>x. formatLabel x (ref_value (columnLabelFormats props) x) True)
                           (axis_x (selectedAxis props))))"
  by (auto simp: xAxisTitle_callback_def)

text \<open>
  On the first render both callbacks run, and the hook returns what the title callback
  computes from the current props.
\<close>

lemma useXAxisTitle_mount:
  "fst (useXAxisTitle formatLabel sep mount props) = xAxisTitle_callback formatLabel sep props"
  by (simp add: useXAxisTitle_def mount_def useMemo_def memo_runs_def Let_def)

text \<open>
  On a later render whose dependencies are the stored ones, neither callback runs: the
  hook returns the stored title and leaves its state as it is, whatever \<open>selectedAxis\<close>
  now holds.
\<close>

lemma useXAxisTitle_cached:
  assumes "formats_cell st =
      Some ((ref_id (xAxis props), isSupportedChartForAxisTitles props,
             ref_id (columnLabelFormats props)), formats)"
    and "title_cell st =
      Some ((xAxisAxisTitle props, isSupportedChartForAxisTitles props,
             xAxisShowAxisTitle props, ref_id (xAxis props), ref_id formats), cached)"
  shows "useXAxisTitle formatLabel sep st props = (cached, st)"
  using assms by (cases st) (simp add: useXAxisTitle_def useMemo_def memo_runs_def Let_def)

text \<open>
  Claim C10. \<open>useXAxisTitle\<close> returns the empty string whenever
  \<open>isSupportedChartForAxisTitles\<close> is false, or \<open>xAxisAxisTitle\<close> is the empty string,
  or \<open>xAxisShowAxisTitle\<close> is falsy; otherwise it returns \<open>xAxisAxisTitle\<close> when that is
  a non-empty string, and otherwise the labels of \<open>selectedAxis.x\<close>, each formatted by
  \<open>formatLabel\<close> with its column-label format, joined with \<open>AXIS_TITLE_SEPARATOR\<close>.

  The hook breaks the last part. Its title memo reads \<open>selectedAxis.x\<close> but lists
  \<open>xAxis\<close> among its dependencies instead of \<open>selectedAxis\<close>. On the first render of
  the pair below the hook returns the title of the one selected column. On the second
  render only \<open>selectedAxis\<close> has changed, its \<open>x\<close> now holding two columns; the chart
  is supported, the title is to be shown and no title is given, so the claim asks for
  the two labels joined; the hook returns the title of the first render.
\<close>

theorem useXAxisTitle_stale:
  "fst (useXAxisTitle example_formatLabel '' | '' mount example_props) = ''Month'' \<and>
   fst (useXAxisTitle example_formatLabel '' | ''
          (snd (useXAxisTitle example_formatLabel '' | '' mount example_props))
          example_props_next) = ''Month'' \<and>
   isSupportedChartForAxisTitles example_props_next \<and>
   js_truthy (xAxisShowAxisTitle example_props_next) \<and>
   xAxisAxisTitle example_props_next = TitleUndefined \<and>
   js_join '' | ''
     (map (\<lambda>x. example_formatLabel x (ref_value (columnLabelFormats example_props_next) x) True)
        (axis_x (selectedAxis example_props_next))) = ''Month | region''"
  by (simp add: useXAxisTitle_def mount_def useMemo_def memo_runs_def Let_def
      example_props_def example_props_next_def xAxisTitle_callback_def js_truthy_def
      example_formatLabel_def)

theorem useXAxisTitle_stale_witness:
  "fst (useXAxisTitle example_formatLabel '' | ''
          (snd (useXAxisTitle example_formatLabel '' | '' mount example_props))
          example_props_next) \<noteq>
   js_join '' | ''
     (map (\<lambda>x. example_formatLabel x (ref_value (columnLabelFormats example_props_next) x) True)
        (axis_x (selectedAxis example_props_next)))"
  using useXAxisTitle_stale by simp

section \<open>Properties of the permission-group requests\<close>

lemmas request_defs = api_get_def api_put_def api_post_def api_delete_def then'_def Let_def

text \<open>
  Claim C4. For every id and every list of \<open>{id, assigned}\<close> records,
  \<open>updatePermissionGroupUsers\<close> sends exactly one \<open>PUT\<close> request to
  \<open>/permission_groups/{id}/users\<close> with that list as the body and resolves with the
  response data; \<open>updatePermissionGroupDatasets\<close> and
  \<open>updatePermissionGroupDatasetGroups\<close> do the same at \<open>/datasets\<close> and
  \<open>/dataset_groups\<close>.
\<close>

theorem permission_group_assignments_put:
  "updatePermissionGroupUsers mainApi ident L =
     ([HttpRequest \<lparr> req_method = PUT, req_url = ''/permission_groups/'' @ ident @ ''/users'',
                      req_body = Some (AssignedItems L) \<rparr>],
      (case mainApi \<lparr> req_method = PUT, req_url = ''/permission_groups/'' @ ident @ ''/users'',
                      req_body = Some (AssignedItems L) \<rparr> of
         Inl err \<Rightarrow> Inl err | Inr res \<Rightarrow> Inr (data' res))) \<and>
   updatePermissionGroupDatasets mainApi ident L =
     ([HttpRequest \<lparr> req_method = PUT, req_url = ''/permission_groups/'' @ ident @ ''/datasets'',
                      req_body = Some (AssignedItems L) \<rparr>],
      (case mainApi \<lparr> req_method = PUT,
                      req_url = ''/permission_groups/'' @ ident @ ''/datasets'',
                      req_body = Some (AssignedItems L) \<rparr> of
         Inl err \<Rightarrow> Inl err | Inr res \<Rightarrow> Inr (data' res))) \<and>
   updatePermissionGroupDatasetGroups mainApi ident L =
     ([HttpRequest \<lparr> req_method = PUT,
                      req_url = ''/permission_groups/'' @ ident @ ''/dataset_groups'',
                      req_body = Some (AssignedItems L) \<rparr>],
      (case mainApi \<lparr> req_method = PUT,
                      req_url = ''/permission_groups/'' @ ident @ ''/dataset_groups'',
                      req_body = Some (AssignedItems L) \<rparr> of
         Inl err \<Rightarrow> Inl err | Inr res \<Rightarrow> Inr (data' res)))"
  by (simp add: updatePermissionGroupUsers_def updatePermissionGroupDatasets_def
      updatePermissionGroupDatasetGroups_def request_defs)

theorem permission_group_assignments_put_witness:
  "updatePermissionGroupUsers example_api ''pg1'' example_update =
     ([HttpRequest \<lparr> req_method = PUT, req_url = ''/permission_groups/pg1/users'',
                      req_body = Some (AssignedItems example_update) \<rparr>], Inr ''ok'') \<and>
   updatePermissionGroupDatasets example_api ''pg1'' example_update =
     ([HttpRequest \<lparr> req_method = PUT, req_url = ''/permission_groups/pg1/datasets'',
                      req_body = Some (AssignedItems example_update) \<rparr>], Inr ''ok'') \<and>
   updatePermissionGroupDatasetGroups example_api ''pg1'' example_update =
     ([HttpRequest \<lparr> req_method = PUT, req_url = ''/permission_groups/pg1/dataset_groups'',
                      req_body = Some (AssignedItems example_update) \<rparr>], Inr ''ok'')"
  using permission_group_assignments_put [of example_api "''pg1''" example_update]
  by (simp add: example_api_def)

text \<open>
  Claim C5. Each CRUD request function issues exactly one request, to the documented
  endpoint with the documented method, and resolves with the \<open>data\<close> field of the
  response: \<open>listAllPermissionGroups\<close> a \<open>GET\<close> of \<open>/permission_groups\<close>,
  \<open>getPermissionGroup\<close> a \<open>GET\<close> of \<open>/permission_groups/{id}\<close>,
  \<open>createPermissionGroup\<close> a \<open>POST\<close> to \<open>/permission_groups\<close> with body \<open>{name}\<close>,
  \<open>updatePermissionGroups\<close> a \<open>PUT\<close> to \<open>/permission_groups/{id}\<close> with body \<open>data\<close>,
  and \<open>deletePermissionGroup\<close> a \<open>DELETE\<close> of \<open>/permission_groups/{id}\<close>.
\<close>

theorem permission_group_crud:
  "listAllPermissionGroups mainApi =
     ([HttpRequest \<lparr> req_method = GET, req_url = ''/permission_groups'', req_body = None \<rparr>],
      (case mainApi \<lparr> req_method = GET, req_url = ''/permission_groups'', req_body = None \<rparr> of
         Inl err \<Rightarrow> Inl err | Inr res \<Rightarrow> Inr (data' res))) \<and>
   getPermissionGroup mainApi ident =
     ([HttpRequest \<lparr> req_method = GET, req_url = ''/permission_groups/'' @ ident,
                      req_body = None \<rparr>],
      (case mainApi \<lparr> req_method = GET, req_url = ''/permission_groups/'' @ ident,
                      req_body = None \<rparr> of
         Inl err \<Rightarrow> Inl err | Inr res \<Rightarrow> Inr (data' res))) \<and>
   createPermissionGroup mainApi nm =
     ([HttpRequest \<lparr> req_method = POST, req_url = ''/permission_groups'',
                      req_body = Some (NameBody nm) \<rparr>],
      (case mainApi \<lparr> req_method = POST, req_url = ''/permission_groups'',
                      req_body = Some (NameBody nm) \<rparr> of
         Inl err \<Rightarrow> Inl err | Inr res \<Rightarrow> Inr (data' res))) \<and>
   updatePermissionGroups mainApi ident items =
     ([HttpRequest \<lparr> req_method = PUT, req_url = ''/permission_groups/'' @ ident,
                      req_body = Some (NamedItems items) \<rparr>],
      (case mainApi \<lparr> req_method = PUT, req_url = ''/permission_groups/'' @ ident,
                      req_body = Some (NamedItems items) \<rparr> of
         Inl err \<Rightarrow> Inl err | Inr res \<Rightarrow> Inr (data' res))) \<and>
   deletePermissionGroup mainApi ident =
     ([HttpRequest \<lparr> req_method = DELETE, req_url = ''/permission_groups/'' @ ident,
                      req_body = None \<rparr>],
      (case mainApi \<lparr> req_method = DELETE, req_url = ''/permission_groups/'' @ ident,
                      req_body = None \<rparr> of
         Inl err \<Rightarrow> Inl err | Inr res \<Rightarrow> Inr (data' res)))"
  by (simp add: listAllPermissionGroups_def getPermissionGroup_def createPermissionGroup_def
      updatePermissionGroups_def deletePermissionGroup_def request_defs)

theorem permission_group_crud_witness:
  "listAllPermissionGroups example_api =
     ([HttpRequest \<lparr> req_method = GET, req_url = ''/permission_groups'', req_body = None \<rparr>],
      Inl ''Network Error'') \<and>
   getPermissionGroup example_api ''pg1'' =
     ([HttpRequest \<lparr> req_method = GET, req_url = ''/permission_groups/pg1'',
                      req_body = None \<rparr>], Inl ''Network Error'') \<and>
   createPermissionGroup example_api ''Sales'' =
     ([HttpRequest \<lparr> req_method = POST, req_url = ''/permission_groups'',
                      req_body = Some (NameBody ''Sales'') \<rparr>], Inr ''ok'') \<and>
   updatePermissionGroups example_api ''pg1'' [\<lparr> named_id = ''pg1'', name = ''Sales'' \<rparr>] =
     ([HttpRequest \<lparr> req_method = PUT, req_url = ''/permission_groups/pg1'',
                      req_body = Some (NamedItems [\<lparr> named_id = ''pg1'', name = ''Sales'' \<rparr>]) \<rparr>],
      Inr ''ok'') \<and>
   deletePermissionGroup example_api ''pg1'' =
     ([HttpRequest \<lparr> req_method = DELETE, req_url = ''/permission_groups/pg1'',
                      req_body = None \<rparr>], Inr ''ok'')"
  using permission_group_crud [of example_api "''pg1''" "''Sales''"
      "[\<lparr> named_id = ''pg1'', name = ''Sales'' \<rparr>]"]
  by (simp add: example_api_def)

text \<open>
  Claim C6. For every request function of the module, when the HTTP call fails the
  returned promise rejects with exactly the error of the client, after exactly one
  request: nothing is retried, and the error is neither swallowed nor changed.
\<close>

theorem request_failure_propagates:
  "(mainApi \<lparr> req_method = GET, req_url = ''/permission_groups'', req_body = None \<rparr> = Inl err
      \<longrightarrow> listAllPermissionGroups mainApi =
            ([HttpRequest \<lparr> req_method = GET, req_url = ''/permission_groups'',
                             req_body = None \<rparr>], Inl err)) \<and>
   (mainApi \<lparr> req_method = GET, req_url = ''/permission_groups/'' @ ident,
              req_body = None \<rparr> = Inl err
      \<longrightarrow> getPermissionGroup mainApi ident =
            ([HttpRequest \<lparr> req_method = GET, req_url = ''/permission_groups/'' @ ident,
                             req_body = None \<rparr>], Inl err)) \<and>
   (mainApi \<lparr> req_method = PUT, req_url = ''/permission_groups/'' @ ident,
              req_body = Some (NamedItems items) \<rparr> = Inl err
      \<longrightarrow> updatePermissionGroups mainApi ident items =
            ([HttpRequest \<lparr> req_method = PUT, req_url = ''/permission_groups/'' @ ident,
                             req_body = Some (NamedItems items) \<rparr>], Inl err)) \<and>
   (mainApi \<lparr> req_method = DELETE, req_url = ''/permission_groups/'' @ ident,
              req_body = None \<rparr> = Inl err
      \<longrightarrow> deletePermissionGroup mainApi ident =
            ([HttpRequest \<lparr> req_method = DELETE, req_url = ''/permission_groups/'' @ ident,
                             req_body = None \<rparr>], Inl err)) \<and>
   (mainApi \<lparr> req_method = POST, req_url = ''/permission_groups'',
              req_body = Some (NameBody nm) \<rparr> = Inl err
      \<longrightarrow> createPermissionGroup mainApi nm =
            ([HttpRequest \<lparr> req_method = POST, req_url = ''/permission_groups'',
                             req_body = Some (NameBody nm) \<rparr>], Inl err)) \<and>
   (mainApi \<lparr> req_method = GET, req_url = ''/permission_groups/'' @ ident @ ''/users'',
              req_body = None \<rparr> = Inl err
      \<longrightarrow> getPermissionGroupUsers mainApi ident =
            ([HttpRequest \<lparr> req_method = GET,
                             req_url = ''/permission_groups/'' @ ident @ ''/users'',
                             req_body = None \<rparr>], Inl err)) \<and>
   (mainApi \<lparr> req_method = GET, req_url = ''/permission_groups/'' @ ident @ ''/datasets'',
              req_body = None \<rparr> = Inl err
      \<longrightarrow> getPermissionGroupDatasets mainApi ident =
            ([HttpRequest \<lparr> req_method = GET,
                             req_url = ''/permission_groups/'' @ ident @ ''/datasets'',
                             req_body = None \<rparr>], Inl err)) \<and>
   (mainApi \<lparr> req_method = GET, req_url = ''/permission_groups/'' @ ident @ ''/dataset_groups'',
              req_body = None \<rparr> = Inl err
      \<longrightarrow> getPermissionGroupDatasetGroups mainApi ident =
            ([HttpRequest \<lparr> req_method = GET,
                             req_url = ''/permission_groups/'' @ ident @ ''/dataset_groups'',
                             req_body = None \<rparr>], Inl err)) \<and>
   (mainApi \<lparr> req_method = PUT, req_url = ''/permission_groups/'' @ ident @ ''/users'',
              req_body = Some (AssignedItems L) \<rparr> = Inl err
      \<longrightarrow> updatePermissionGroupUsers mainApi ident L =
            ([HttpRequest \<lparr> req_method = PUT,
                             req_url = ''/permission_groups/'' @ ident @ ''/users'',
                             req_body = Some (AssignedItems L) \<rparr>], Inl err)) \<and>
   (mainApi \<lparr> req_method = PUT, req_url = ''/permission_groups/'' @ ident @ ''/datasets'',
              req_body = Some (AssignedItems L) \<rparr> = Inl err
      \<longrightarrow> updatePermissionGroupDatasets mainApi ident L =
            ([HttpRequest \<lparr> req_method = PUT,
                             req_url = ''/permission_groups/'' @ ident @ ''/datasets'',
                             req_body = Some (AssignedItems L) \<rparr>], Inl err)) \<and>
   (mainApi \<lparr> req_method = PUT, req_url = ''/permission_groups/'' @ ident @ ''/dataset_groups'',
              req_body = Some (AssignedItems L) \<rparr> = Inl err
      \<longrightarrow> updatePermissionGroupDatasetGroups mainApi ident L =
            ([HttpRequest \<lparr> req_method = PUT,
                             req_url = ''/permission_groups/'' @ ident @ ''/dataset_groups'',
                             req_body = Some (AssignedItems L) \<rparr>], Inl err))"
  by (simp add: listAllPermissionGroups_def getPermissionGroup_def updatePermissionGroups_def
      deletePermissionGroup_def createPermissionGroup_def getPermissionGroupUsers_def
      getPermissionGroupDatasets_def getPermissionGroupDatasetGroups_def
      updatePermissionGroupUsers_def updatePermissionGroupDatasets_def
      updatePermissionGroupDatasetGroups_def request_defs)

theorem request_failure_propagates_witness:
  "failing_api \<lparr> req_method = GET, req_url = ''/permission_groups'', req_body = None \<rparr> =
     Inl ''Network Error'' \<and>
   listAllPermissionGroups failing_api =
     ([HttpRequest \<lparr> req_method = GET, req_url = ''/permission_groups'', req_body = None \<rparr>],
      Inl ''Network Error'') \<and>
   getPermissionGroupUsers failing_api ''pg1'' =
     ([HttpRequest \<lparr> req_method = GET, req_url = ''/permission_groups/pg1/users'',
                      req_body = None \<rparr>], Inl ''Network Error'') \<and>
   updatePermissionGroupDatasetGroups failing_api ''pg1'' example_update =
     ([HttpRequest \<lparr> req_method = PUT, req_url = ''/permission_groups/pg1/dataset_groups'',
                      req_body = Some (AssignedItems example_update) \<rparr>],
      Inl ''Network Error'')"
  using request_failure_propagates [of failing_api "''Network Error''" "''pg1''" "[]" "''n''"
      example_update]
  by (simp add: failing_api_def)

section \<open>Properties of the dataset-group mutation hooks\<close>

text \<open>With data cached under the key, \<open>setQueryData\<close> stores the mapped rows.\<close>

lemma setQueryData_cached:
  assumes "cache w key = Some old"
  shows "setQueryData key
           (\<lambda>oldData. case oldData of None \<Rightarrow> Inl TypeError | Some rows \<Rightarrow> Inr (map f rows)) w =
         Inr (w\<lparr> cache := (cache w)(key \<mapsto> map f old),
                 events := events w @ [SetQueryData key] \<rparr>)"
  using assms by (simp add: setQueryData_def)


text \<open>
  The updater's lookup \<open>data.find((d) => d.id === row.id)\<close> reads the update list as an
  association list from id to \<open>assigned\<close>: the first entry with the id decides.
\<close>

lemma js_find_map_of:
  "(case js_find (\<lambda>d. id' d = k) L of Some u \<Rightarrow> Some (assigned u) | None \<Rightarrow> None) =
   map_of (map (\<lambda>u. (id' u, assigned u)) L) k"
  by (induction L) auto

lemma updater_row:
  "(case js_find (\<lambda>d. id' d = id' row) L of
      Some u \<Rightarrow> row\<lparr> assigned := assigned u \<rparr> | None \<Rightarrow> row) =
   (case map_of (map (\<lambda>u. (id' u, assigned u)) L) (id' row) of
      Some v \<Rightarrow> row\<lparr> assigned := v \<rparr> | None \<Rightarrow> row)"
  using js_find_map_of [of "id' row" L] by (auto split: option.splits)

text \<open>
  Claim C3. When the mutation of \<open>useUpdateDatasetGroupUsers\<close> runs with update list \<open>L\<close>
  over a cached list \<open>oldData\<close>, the cached list is replaced by a list of the same length
  and order: a row whose id occurs in \<open>L\<close> has \<open>assigned\<close> set to the value \<open>L\<close> gives
  for that id (that of the first entry with the id) and every other field unchanged; a
  row whose id does not occur in \<open>L\<close> is unchanged. The cache write happens before the
  request function is called, so before the request is issued. The same holds for
  \<open>useUpdateDatasetGroupDatasets\<close> and \<open>useUpdateDatasetGroupPermissionGroups\<close> over their
  cached lists.
\<close>

theorem optimistic_assignment_update:
  fixes w :: "'a Assigned_scheme list world"
  shows
  "(cache w [''dataset_groups'', g, ''users''] = Some oldData \<longrightarrow>
      (\<exists>newData.
         useUpdateDatasetGroupUsers request g L w =
           Inr (snd (request g L),
                w\<lparr> cache := (cache w)([''dataset_groups'', g, ''users''] \<mapsto> newData),
                   events := events w @ [SetQueryData [''dataset_groups'', g, ''users'']]
                               @ fst (request g L) \<rparr>) \<and>
         length newData = length oldData \<and>
         (\<forall>k < length oldData.
            newData ! k =
              (case map_of (map (\<lambda>u. (id' u, assigned u)) L) (id' (oldData ! k)) of
                 Some v \<Rightarrow> (oldData ! k)\<lparr> assigned := v \<rparr>
               | None \<Rightarrow> oldData ! k)))) \<and>
   (cache w [''dataset_groups'', g, ''datasets''] = Some oldData \<longrightarrow>
      (\<exists>newData.
         useUpdateDatasetGroupDatasets request g L w =
           Inr (snd (request g L),
                w\<lparr> cache := (cache w)([''dataset_groups'', g, ''datasets''] \<mapsto> newData),
                   events := events w @ [SetQueryData [''dataset_groups'', g, ''datasets'']]
                               @ fst (request g L) \<rparr>) \<and>
         length newData = length oldData \<and>
         (\<forall>k < length oldData.
            newData ! k =
              (case map_of (map (\<lambda>u. (id' u, assigned u)) L) (id' (oldData ! k)) of
                 Some v \<Rightarrow> (oldData ! k)\<lparr> assigned := v \<rparr>
               | None \<Rightarrow> oldData ! k)))) \<and>
   (cache w [''dataset_groups'', g, ''permission_groups''] = Some oldData \<longrightarrow>
      (\<exists>newData.
         useUpdateDatasetGroupPermissionGroups request g L w =
           Inr (snd (request g L),
                w\<lparr> cache := (cache w)([''dataset_groups'', g, ''permission_groups''] \<mapsto> newData),
                   events := events w
                               @ [SetQueryData [''dataset_groups'', g, ''permission_groups'']]
                               @ fst (request g L) \<rparr>) \<and>
         length newData = length oldData \<and>
         (\<forall>k < length oldData.
            newData ! k =
              (case map_of (map (\<lambda>u. (id' u, assigned u)) L) (id' (oldData ! k)) of
                 Some v \<Rightarrow> (oldData ! k)\<lparr> assigned := v \<rparr>
               | None \<Rightarrow> oldData ! k))))"
proof (intro conjI impI)
  let ?f = "\<lambda>row :: 'a Assigned_scheme.
              (case js_find (\<lambda>d. id' d = id' row) L of
                 Some u \<Rightarrow> row\<lparr> assigned := assigned u \<rparr> | None \<Rightarrow> row)"
  have rows: "length (map ?f oldData) = length oldData \<and>
         (\<forall>k < length oldData.
            map ?f oldData ! k =
              (case map_of (map (\<lambda>u. (id' u, assigned u)) L) (id' (oldData ! k)) of
                 Some v \<Rightarrow> (oldData ! k)\<lparr> assigned := v \<rparr>
               | None \<Rightarrow> oldData ! k))"
    by (simp add: updater_row)
  {
    assume c: "cache w [''dataset_groups'', g, ''users''] = Some oldData"
    show "\<exists>newData.
         useUpdateDatasetGroupUsers request g L w =
           Inr (snd (request g L),
                w\<lparr> cache := (cache w)([''dataset_groups'', g, ''users''] \<mapsto> newData),
                   events := events w @ [SetQueryData [''dataset_groups'', g, ''users'']]
                               @ fst (request g L) \<rparr>) \<and>
         length newData = length oldData \<and>
         (\<forall>k < length oldData.
            newData ! k =
              (case map_of (map (\<lambda>u. (id' u, assigned u)) L) (id' (oldData ! k)) of
                 Some v \<Rightarrow> (oldData ! k)\<lparr> assigned := v \<rparr>
               | None \<Rightarrow> oldData ! k))"
      apply (rule exI [of _ "map ?f oldData"])
      using rows
      by (simp add: useUpdateDatasetGroupUsers_def setQueryData_cached [OF c] call_def)
  }
  {
    assume c: "cache w [''dataset_groups'', g, ''datasets''] = Some oldData"
    show "\<exists>newData.
         useUpdateDatasetGroupDatasets request g L w =
           Inr (snd (request g L),
                w\<lparr> cache := (cache w)([''dataset_groups'', g, ''datasets''] \<mapsto> newData),
                   events := events w @ [SetQueryData [''dataset_groups'', g, ''datasets'']]
                               @ fst (request g L) \<rparr>) \<and>
         length newData = length oldData \<and>
         (\<forall>k < length oldData.
            newData ! k =
              (case map_of (map (\<lambda>u. (id' u, assigned u)) L) (id' (oldData ! k)) of
                 Some v \<Rightarrow> (oldData ! k)\<lparr> assigned := v \<rparr>
               | None \<Rightarrow> oldData ! k))"
      apply (rule exI [of _ "map ?f oldData"])
      using rows
      by (simp add: useUpdateDatasetGroupDatasets_def setQueryData_cached [OF c] call_def)
  }
  {
    assume c: "cache w [''dataset_groups'', g, ''permission_groups''] = Some oldData"
    show "\<exists>newData.
         useUpdateDatasetGroupPermissionGroups request g L w =
           Inr (snd (request g L),
                w\<lparr> cache := (cache w)([''dataset_groups'', g, ''permission_groups''] \<mapsto> newData),
                   events := events w
                               @ [SetQueryData [''dataset_groups'', g, ''permission_groups'']]
                               @ fst (request g L) \<rparr>) \<and>
         length newData = length oldData \<and>
         (\<forall>k < length oldData.
            newData ! k =
              (case map_of (map (\<lambda>u. (id' u, assigned u)) L) (id' (oldData ! k)) of
                 Some v \<Rightarrow> (oldData ! k)\<lparr> assigned := v \<rparr>
               | None \<Rightarrow> oldData ! k))"
      apply (rule exI [of _ "map ?f oldData"])
      using rows
      by (simp add: useUpdateDatasetGroupPermissionGroups_def setQueryData_cached [OF c] call_def)
  }
qed

theorem optimistic_assignment_update_witness:
  "cache example_world [''dataset_groups'', ''g1'', ''users''] =
     Some [\<lparr> id' = ''u1'', assigned = False, email = ''a@x.io'' \<rparr>,
           \<lparr> id' = ''u2'', assigned = True, email = ''b@x.io'' \<rparr>] \<and>
   (\<exists>newData.
      useUpdateDatasetGroupUsers example_request ''g1'' example_update example_world =
        Inr (Inr (),
             example_world\<lparr> cache := (cache example_world)
                                ([''dataset_groups'', ''g1'', ''users''] \<mapsto> newData),
                events := [SetQueryData [''dataset_groups'', ''g1'', ''users''],
                           HttpRequest \<lparr> req_method = PUT,
                                         req_url = ''/dataset_groups/g1/users'',
                                         req_body = Some (AssignedItems example_update) \<rparr>] \<rparr>) \<and>
      newData = [\<lparr> id' = ''u1'', assigned = True, email = ''a@x.io'' \<rparr>,
                 \<lparr> id' = ''u2'', assigned = True, email = ''b@x.io'' \<rparr>])"
proof -
  let ?old = "[\<lparr> id' = ''u1'', assigned = False, email = ''a@x.io'' \<rparr>,
               \<lparr> id' = ''u2'', assigned = True, email = ''b@x.io'' \<rparr>]"
  have h: "cache example_world [''dataset_groups'', ''g1'', ''users''] = Some ?old"
    by (simp add: example_world_def)
  from optimistic_assignment_update [of example_world "''g1''" ?old example_request
      example_update, THEN conjunct1, THEN mp, OF h]
  obtain newData where
    res: "useUpdateDatasetGroupUsers example_request ''g1'' example_update example_world =
           Inr (snd (example_request ''g1'' example_update),
                example_world\<lparr> cache := (cache example_world)
                                  ([''dataset_groups'', ''g1'', ''users''] \<mapsto> newData),
                   events := events example_world
                               @ [SetQueryData [''dataset_groups'', ''g1'', ''users'']]
                               @ fst (example_request ''g1'' example_update) \<rparr>)"
    and len: "length newData = length ?old"
    and rows: "\<forall>k < length ?old.
            newData ! k =
              (case map_of (map (\<lambda>u. (id' u, assigned u)) example_update) (id' (?old ! k)) of
                 Some v \<Rightarrow> (?old ! k)\<lparr> assigned := v \<rparr>
               | None \<Rightarrow> ?old ! k)"
    by blast
  from rows have r0: "newData ! 0 = \<lparr> id' = ''u1'', assigned = True, email = ''a@x.io'' \<rparr>"
    by (simp add: example_update_def)
  from rows have r1: "newData ! 1 = \<lparr> id' = ''u2'', assigned = True, email = ''b@x.io'' \<rparr>"
    by (simp add: example_update_def)
  from len have "length newData = 2" by simp
  with r0 r1 have nd: "newData = [\<lparr> id' = ''u1'', assigned = True, email = ''a@x.io'' \<rparr>,
                 \<lparr> id' = ''u2'', assigned = True, email = ''b@x.io'' \<rparr>]"
    by (auto simp: list_eq_iff_nth_eq less_Suc_eq numeral_2_eq_2)
  have ev: "events example_world = []" by (simp add: example_world_def)
  from res nd h ev show ?thesis
    by (simp add: example_request_def)
qed

text \<open>
  Claim C7. The mutations of \<open>useDeleteDatasetGroup\<close> and \<open>useUpdateDatasetGroup\<close> first
  await the network request; when it resolves they invalidate the query key
  \<open>dataset_groups\<close> and resolve with the request's result unchanged; when it rejects,
  they reject with its error and nothing is invalidated.
\<close>

theorem invalidate_after_request:
  "(deleteDatasetGroup ident = (evs, Inr res) \<longrightarrow>
      useDeleteDatasetGroup deleteDatasetGroup ident w =
        (Inr res, w\<lparr> events := events w @ evs @ [InvalidateQueries [''dataset_groups'']] \<rparr>)) \<and>
   (deleteDatasetGroup ident = (evs, Inl err) \<longrightarrow>
      useDeleteDatasetGroup deleteDatasetGroup ident w =
        (Inl err, w\<lparr> events := events w @ evs \<rparr>)) \<and>
   (updateDatasetGroup payload = (evs', Inr res') \<longrightarrow>
      useUpdateDatasetGroup updateDatasetGroup payload w =
        (Inr res', w\<lparr> events := events w @ evs' @ [InvalidateQueries [''dataset_groups'']] \<rparr>)) \<and>
   (updateDatasetGroup payload = (evs', Inl err') \<longrightarrow>
      useUpdateDatasetGroup updateDatasetGroup payload w =
        (Inl err', w\<lparr> events := events w @ evs' \<rparr>))"
  by (simp add: useDeleteDatasetGroup_def useUpdateDatasetGroup_def call_def
      invalidateQueries_def)


theorem invalidate_after_request_witness:
  "useDeleteDatasetGroup example_delete ''g1'' example_world =
     (Inr (), example_world\<lparr> events :=
        [HttpRequest \<lparr> req_method = DELETE, req_url = ''/dataset_groups/g1'', req_body = None \<rparr>,
         InvalidateQueries [''dataset_groups'']] \<rparr>) \<and>
   useDeleteDatasetGroup example_delete ''missing'' example_world =
     (Inl ''404'', example_world\<lparr> events :=
        [HttpRequest \<lparr> req_method = DELETE, req_url = ''/dataset_groups/missing'',
                       req_body = None \<rparr>] \<rparr>) \<and>
   useUpdateDatasetGroup example_delete ''g1'' example_world =
     (Inr (), example_world\<lparr> events :=
        [HttpRequest \<lparr> req_method = DELETE, req_url = ''/dataset_groups/g1'', req_body = None \<rparr>,
         InvalidateQueries [''dataset_groups'']] \<rparr>) \<and>
   useUpdateDatasetGroup example_delete ''missing'' example_world =
     (Inl ''404'', example_world\<lparr> events :=
        [HttpRequest \<lparr> req_method = DELETE, req_url = ''/dataset_groups/missing'',
                       req_body = None \<rparr>] \<rparr>)"
proof -
  have ok: "example_delete ''g1'' =
      ([HttpRequest \<lparr> req_method = DELETE, req_url = ''/dataset_groups/g1'', req_body = None \<rparr>],
       Inr ())"
    by (simp add: example_delete_def)
  have ko: "example_delete ''missing'' =
      ([HttpRequest \<lparr> req_method = DELETE, req_url = ''/dataset_groups/missing'',
                      req_body = None \<rparr>], Inl ''404'')"
    by (simp add: example_delete_def)
  have ev: "events example_world = []" by (simp add: example_world_def)
  note a = invalidate_after_request [where deleteDatasetGroup = example_delete
      and ident = "''g1''" and w = example_world, THEN conjunct1, THEN mp, OF ok]
  note b = invalidate_after_request [where deleteDatasetGroup = example_delete
      and ident = "''missing''" and w = example_world,
      THEN conjunct2, THEN conjunct1, THEN mp, OF ko]
  note c = invalidate_after_request [where updateDatasetGroup = example_delete
      and payload = "''g1''" and w = example_world,
      THEN conjunct2, THEN conjunct2, THEN conjunct1, THEN mp, OF ok]
  note d = invalidate_after_request [where updateDatasetGroup = example_delete
      and payload = "''missing''" and w = example_world,
      THEN conjunct2, THEN conjunct2, THEN conjunct2, THEN mp, OF ko]
  from a b c d ev show ?thesis by simp
qed

section \<open>Properties of the user datasets list\<close>

text \<open>\<open>toString\<close> yields decimal digits that denote its argument.\<close>

lemma of_char_digit: "d < 10 \<Longrightarrow> of_char (digit d) = (48 + d :: nat)"
proof -
  assume "d < 10"
  then have "d \<in> {0, 1, 2, 3, 4, 5, 6, 7, 8, 9}" by auto
  then show ?thesis by (auto simp: digit_def)
qed

lemma decimal_value_snoc: "decimal_value (s @ [c]) = 10 * decimal_value s + (of_char c - 48)"
  by (simp add: decimal_value_def)

lemma decimal_value_toString: "decimal_value (toString n) = n"
proof (induction n rule: toString.induct)
  case (1 n)
  show ?case
  proof (cases "n < 10")
    case True
    then show ?thesis
      by (simp add: toString.simps [of n] decimal_value_def of_char_digit)
  next
    case False
    with "1" have ih: "decimal_value (toString (n div 10)) = n div 10" by simp
    have "n mod 10 < 10" by simp
    then have "of_char (digit (n mod 10)) = (48 + n mod 10 :: nat)" by (rule of_char_digit)
    with False ih show ?thesis
      by (simp add: toString.simps [of n] decimal_value_snoc)
  qed
qed

text \<open>The \<open>reduce\<close> computes the two filtered lists, in input order.\<close>

lemma partition_foldl:
  "foldl (\<lambda>acc dataset.
              (let user = \<lparr> row_id = id' dataset, row_data = Some dataset,
                            link = Some (mk (id' dataset)),
                            row_hidden = None, rowSection = None \<rparr>
               in if assigned dataset
                  then acc\<lparr> canQueryPermissionUsers := canQueryPermissionUsers acc @ [user] \<rparr>
                  else acc\<lparr> cannotQueryPermissionUsers :=
                              cannotQueryPermissionUsers acc @ [user] \<rparr>))
       acc0 ds =
   \<lparr> cannotQueryPermissionUsers =
       cannotQueryPermissionUsers acc0 @ map (dataset_row mk) (filter (\<lambda>d. \<not> assigned d) ds),
     canQueryPermissionUsers =
       canQueryPermissionUsers acc0 @ map (dataset_row mk) (filter assigned ds) \<rparr>"
  by (induction ds arbitrary: acc0) (simp_all add: dataset_row_def Let_def)

lemma partition_eq:
  "UserDatasetsListContainer_partition mk ds =
   \<lparr> cannotQueryPermissionUsers = map (dataset_row mk) (filter (\<lambda>d. \<not> assigned d) ds),
     canQueryPermissionUsers = map (dataset_row mk) (filter assigned ds) \<rparr>"
  unfolding UserDatasetsListContainer_partition_def partition_foldl by simp

lemma filter_dataset_rows:
  "filter (\<lambda>row. \<not> js_truthy (row_hidden row)) (map (dataset_row mk) xs) = map (dataset_row mk) xs"
  by (induction xs) (simp_all add: dataset_row_def js_truthy_def)

lemma js_truthy_Some: "js_truthy (Some b) = b"
  by (simp add: js_truthy_def)

lemma rows_eq:
  "UserDatasetsListContainer_rows mk ds =
     (if filter assigned ds = [] then []
      else [section_header ''header-assigned'' ''Assigned'' (length (filter assigned ds))])
     @ map (dataset_row mk) (filter assigned ds)
     @ (if filter (\<lambda>d. \<not> assigned d) ds = [] then []
        else [section_header ''header-not-assigned'' ''Not Assigned''
                (length (filter (\<lambda>d. \<not> assigned d) ds))])
     @ map (dataset_row mk) (filter (\<lambda>d. \<not> assigned d) ds)"
  by (simp add: UserDatasetsListContainer_rows_def partition_eq Let_def filter_dataset_rows
      js_truthy_Some section_header_def)

lemma map_filter_dataset_rows:
  "List.map_filter row_data (map (dataset_row mk) xs) = xs"
  by (induction xs) (simp_all add: List.map_filter_simps dataset_row_def)

lemma map_filter_append:
  "List.map_filter f (xs @ ys) = List.map_filter f xs @ List.map_filter f ys"
  by (simp add: List.map_filter_def)

lemma mset_partition: "mset (filter P xs @ filter (\<lambda>x. \<not> P x) xs) = mset xs"
  by (induction xs) simp_all

text \<open>
  Claim C9. For every input list of datasets, the rows contain each input dataset exactly
  once, the assigned datasets (in input order) before the others (in input order); the
  ``Assigned'' header is present iff some dataset is assigned, and the ``Not Assigned''
  header iff some dataset is not; each header stands directly before its section and
  its secondary title is the decimal string of the number of rows of the section.
\<close>

theorem rows_structure:
  fixes ds :: "'a Assigned_scheme list"
  shows
  "UserDatasetsListContainer_rows mk ds =
     (if filter assigned ds = [] then []
      else [section_header ''header-assigned'' ''Assigned'' (length (filter assigned ds))])
     @ map (dataset_row mk) (filter assigned ds)
     @ (if filter (\<lambda>d. \<not> assigned d) ds = [] then []
        else [section_header ''header-not-assigned'' ''Not Assigned''
                (length (filter (\<lambda>d. \<not> assigned d) ds))])
     @ map (dataset_row mk) (filter (\<lambda>d. \<not> assigned d) ds) \<and>
   List.map_filter row_data (UserDatasetsListContainer_rows mk ds) =
     filter assigned ds @ filter (\<lambda>d. \<not> assigned d) ds \<and>
   mset (List.map_filter row_data (UserDatasetsListContainer_rows mk ds)) = mset ds \<and>
   ((\<exists>row \<in> set (UserDatasetsListContainer_rows mk ds).
       rowSection row = Some \<lparr> title = ''Assigned'',
                               secondaryTitle = toString (length (filter assigned ds)) \<rparr>)
     \<longleftrightarrow> (\<exists>d \<in> set ds. assigned d)) \<and>
   ((\<exists>row \<in> set (UserDatasetsListContainer_rows mk ds).
       rowSection row =
         Some \<lparr> title = ''Not Assigned'',
                secondaryTitle = toString (length (filter (\<lambda>d. \<not> assigned d) ds)) \<rparr>)
     \<longleftrightarrow> (\<exists>d \<in> set ds. \<not> assigned d)) \<and>
   (\<forall>row \<in> set (UserDatasetsListContainer_rows mk ds). \<forall>s.
       rowSection row = Some s \<longrightarrow>
         (s = \<lparr> title = ''Assigned'',
                secondaryTitle = toString (length (filter assigned ds)) \<rparr> \<or>
          s = \<lparr> title = ''Not Assigned'',
                secondaryTitle = toString (length (filter (\<lambda>d. \<not> assigned d) ds)) \<rparr>)) \<and>
   decimal_value (toString (length (filter assigned ds))) = length (filter assigned ds) \<and>
   decimal_value (toString (length (filter (\<lambda>d. \<not> assigned d) ds))) =
     length (filter (\<lambda>d. \<not> assigned d) ds)"
proof -
  define A where "A = filter assigned ds"
  define N where "N = filter (\<lambda>d. \<not> assigned d) ds"
  have eq: "UserDatasetsListContainer_rows mk ds =
     (if A = [] then [] else [section_header ''header-assigned'' ''Assigned'' (length A)])
     @ map (dataset_row mk) A
     @ (if N = [] then []
        else [section_header ''header-not-assigned'' ''Not Assigned'' (length N)])
     @ map (dataset_row mk) N"
    unfolding A_def N_def by (rule rows_eq)
  have hdr: "row_data (section_header i t n :: 'a Assigned_scheme BusterListRowItem) = None"
    for i t n
    by (simp add: section_header_def)
  have data: "List.map_filter row_data (UserDatasetsListContainer_rows mk ds) = A @ N"
    unfolding eq by (simp add: map_filter_append map_filter_dataset_rows hdr List.map_filter_simps)
  have perm: "mset (A @ N) = mset ds"
    unfolding A_def N_def by (rule mset_partition)
  have nosec: "rowSection (dataset_row mk d) = None" for d :: "'a Assigned_scheme"
    by (simp add: dataset_row_def)
  have sec: "rowSection (section_header i t n :: 'a Assigned_scheme BusterListRowItem) =
      Some \<lparr> title = t, secondaryTitle = toString n \<rparr>" for i t n
    by (simp add: section_header_def)
  have Aex: "A \<noteq> [] \<longleftrightarrow> (\<exists>d \<in> set ds. assigned d)"
    unfolding A_def by (simp add: filter_empty_conv)
  have Nex: "N \<noteq> [] \<longleftrightarrow> (\<exists>d \<in> set ds. \<not> assigned d)"
    unfolding N_def by (simp add: filter_empty_conv)
  have h1: "(\<exists>row \<in> set (UserDatasetsListContainer_rows mk ds).
       rowSection row = Some \<lparr> title = ''Assigned'', secondaryTitle = toString (length A) \<rparr>)
     \<longleftrightarrow> A \<noteq> []"
    unfolding eq by (auto simp: nosec sec)
  have h2: "(\<exists>row \<in> set (UserDatasetsListContainer_rows mk ds).
       rowSection row =
         Some \<lparr> title = ''Not Assigned'', secondaryTitle = toString (length N) \<rparr>)
     \<longleftrightarrow> N \<noteq> []"
    unfolding eq by (auto simp: nosec sec)
  have h3: "\<forall>row \<in> set (UserDatasetsListContainer_rows mk ds). \<forall>s.
       rowSection row = Some s \<longrightarrow>
         (s = \<lparr> title = ''Assigned'', secondaryTitle = toString (length A) \<rparr> \<or>
          s = \<lparr> title = ''Not Assigned'', secondaryTitle = toString (length N) \<rparr>)"
    unfolding eq by (auto simp: nosec sec split: if_splits)
  show ?thesis
    using eq data perm h1 h2 h3 Aex Nex
    unfolding A_def N_def by (simp add: decimal_value_toString)
qed

theorem rows_structure_witness:
  "UserDatasetsListContainer_rows (\<lambda>i. ''/app/settings/users/'' @ i) example_user_datasets =
     [\<lparr> row_id = ''header-assigned'', row_data = None, link = None, row_hidden = Some False,
        rowSection = Some \<lparr> title = ''Assigned'', secondaryTitle = ''2'' \<rparr> \<rparr>,
      \<lparr> row_id = ''d2'', row_data = Some \<lparr> id' = ''d2'', assigned = True \<rparr>,
        link = Some ''/app/settings/users/d2'', row_hidden = None, rowSection = None \<rparr>,
      \<lparr> row_id = ''d4'', row_data = Some \<lparr> id' = ''d4'', assigned = True \<rparr>,
        link = Some ''/app/settings/users/d4'', row_hidden = None, rowSection = None \<rparr>,
      \<lparr> row_id = ''header-not-assigned'', row_data = None, link = None,
        row_hidden = Some False,
        rowSection = Some \<lparr> title = ''Not Assigned'', secondaryTitle = ''2'' \<rparr> \<rparr>,
      \<lparr> row_id = ''d1'', row_data = Some \<lparr> id' = ''d1'', assigned = False \<rparr>,
        link = Some ''/app/settings/users/d1'', row_hidden = None, rowSection = None \<rparr>,
      \<lparr> row_id = ''d3'', row_data = Some \<lparr> id' = ''d3'', assigned = False \<rparr>,
        link = Some ''/app/settings/users/d3'', row_hidden = None, rowSection = None \<rparr>]"
  using rows_structure [of "\<lambda>i. ''/app/settings/users/'' @ i" example_user_datasets,
      THEN conjunct1]
  by (simp add: example_user_datasets_def section_header_def dataset_row_def
      toString.simps digit_def)

end
